theory Spec2Isabelle
  imports Main "HOL-Library.Word"
begin

section \<open>Type descriptors\<close>

text \<open>
  The descriptors of \<^verbatim>\<open>dffi/types.h\<close> are only queried by \<^verbatim>\<open>cobj.cpp\<close>. A descriptor is
  one of seven kinds. The basic kinds are the eleven that \<^verbatim>\<open>getFormatDescriptor\<close> names
  in its \<^verbatim>\<open>HANDLE_BASICTY\<close> table; each stands for the C type of that table.
\<close>

datatype basic_kind =
    Char_k | UInt8 | UInt16 | UInt32 | UInt64
  | Int8 | Int16 | Int32 | Int64 | Float32 | Float64

text \<open>
  A qualified type is a type with its \<^verbatim>\<open>const\<close> flag (\<^verbatim>\<open>QualType::hasConst\<close>). Struct,
  union and function descriptors carry the size and alignment that the type system
  computed for them; the other kinds have the layout of the x86-64 System V ABI.
\<close>

datatype ctype =
    BasicType basic_kind
  | EnumType
  | PointerType ctype bool
  | ArrayType ctype nat
  | StructType string nat nat
  | UnionType string nat nat
  | FunctionType "(ctype \<times> bool) list" "ctype option" nat nat

fun sizeof_basic :: "basic_kind \<Rightarrow> nat" where
  "sizeof_basic Char_k = 1"
| "sizeof_basic UInt8 = 1"
| "sizeof_basic UInt16 = 2"
| "sizeof_basic UInt32 = 4"
| "sizeof_basic UInt64 = 8"
| "sizeof_basic Int8 = 1"
| "sizeof_basic Int16 = 2"
| "sizeof_basic Int32 = 4"
| "sizeof_basic Int64 = 8"
| "sizeof_basic Float32 = 4"
| "sizeof_basic Float64 = 8"

text \<open>\<^verbatim>\<open>sizeof(uintptr_t)\<close> and \<^verbatim>\<open>sizeof(void*)\<close> on the modelled platform.\<close>

definition sizeof_uintptr_t :: nat where
  "sizeof_uintptr_t = 8"

text \<open>Modelled from the spec: \<^verbatim>\<open>EnumType::IntType\<close> is \<^verbatim>\<open>int\<close>, the underlying integer type
  of every enum; \<^verbatim>\<open>EnumType::getBasicType\<close> returns its descriptor.\<close>

definition EnumType_IntType :: basic_kind where
  "EnumType_IntType = Int32"

text \<open>Modelled from the spec: every descriptor exposes \<^verbatim>\<open>size\<close> and \<^verbatim>\<open>alignment\<close>
  (\<^verbatim>\<open>Type::getSize\<close>, \<^verbatim>\<open>Type::getAlign\<close>).\<close>

fun getSize :: "ctype \<Rightarrow> nat" where
  "getSize (BasicType k) = sizeof_basic k"
| "getSize EnumType = sizeof_basic EnumType_IntType"
| "getSize (PointerType _ _) = sizeof_uintptr_t"
| "getSize (ArrayType el n) = getSize el * n"
| "getSize (StructType _ sz _) = sz"
| "getSize (UnionType _ sz _) = sz"
| "getSize (FunctionType _ _ sz _) = sz"

fun getAlign :: "ctype \<Rightarrow> nat" where
  "getAlign (BasicType k) = sizeof_basic k"
| "getAlign EnumType = sizeof_basic EnumType_IntType"
| "getAlign (PointerType _ _) = sizeof_uintptr_t"
| "getAlign (ArrayType el n) = getAlign el"
| "getAlign (StructType _ _ al) = al"
| "getAlign (UnionType _ _ al) = al"
| "getAlign (FunctionType _ _ _ al) = al"


section \<open>Memory\<close>

text \<open>
  Native memory is byte addressed by 64-bit addresses. \<^verbatim>\<open>brk\<close> is the next address that
  an owned allocation (\<^verbatim>\<open>Data<T>::emplace_owned\<close>, a new host bytes object) receives.
\<close>

type_synonym addr = "64 word"
type_synonym byte = "8 word"

record heap =
  mem :: "addr \<Rightarrow> byte"
  brk :: addr

fun store_bytes :: "(addr \<Rightarrow> byte) \<Rightarrow> addr \<Rightarrow> byte list \<Rightarrow> (addr \<Rightarrow> byte)" where
  "store_bytes m a [] = m"
| "store_bytes m a (b # bs) = store_bytes (m(a := b)) (a + 1) bs"

fun load_bytes :: "(addr \<Rightarrow> byte) \<Rightarrow> addr \<Rightarrow> nat \<Rightarrow> byte list" where
  "load_bytes m a 0 = []"
| "load_bytes m a (Suc n) = m a # load_bytes m (a + 1) n"

text \<open>The object representation of an integer: little endian.\<close>

definition le_bytes :: "nat \<Rightarrow> 'a::len word \<Rightarrow> byte list" where
  "le_bytes n w = map (\<lambda>i. ucast (drop_bit (8 * i) w)) [0..<n]"

fun from_le_bytes :: "byte list \<Rightarrow> 'a::len word" where
  "from_le_bytes [] = 0"
| "from_le_bytes (b # bs) = or (ucast b) (push_bit 8 (from_le_bytes bs))"

text \<open>A value of one of the C types that the dispatcher instantiates \<^verbatim>\<open>case_basic<T>\<close>
  with. Floating-point values are kept as their IEEE-754 bit patterns.\<close>

datatype cvalue =
    V_char byte | V_uint8 byte | V_uint16 "16 word" | V_uint32 "32 word" | V_uint64 "64 word"
  | V_int8 byte | V_int16 "16 word" | V_int32 "32 word" | V_int64 "64 word"
  | V_float "32 word" | V_double "64 word"

fun object_repr :: "cvalue \<Rightarrow> byte list" where
  "object_repr (V_char w) = le_bytes 1 w"
| "object_repr (V_uint8 w) = le_bytes 1 w"
| "object_repr (V_uint16 w) = le_bytes 2 w"
| "object_repr (V_uint32 w) = le_bytes 4 w"
| "object_repr (V_uint64 w) = le_bytes 8 w"
| "object_repr (V_int8 w) = le_bytes 1 w"
| "object_repr (V_int16 w) = le_bytes 2 w"
| "object_repr (V_int32 w) = le_bytes 4 w"
| "object_repr (V_int64 w) = le_bytes 8 w"
| "object_repr (V_float w) = le_bytes 4 w"
| "object_repr (V_double w) = le_bytes 8 w"

text \<open>\<^verbatim>\<open>*reinterpret_cast<T*>(Ptr)\<close> as an rvalue, \<^verbatim>\<open>T\<close> being the C type of the kind.\<close>

fun read_as :: "basic_kind \<Rightarrow> (addr \<Rightarrow> byte) \<Rightarrow> addr \<Rightarrow> cvalue" where
  "read_as Char_k m a = V_char (from_le_bytes (load_bytes m a 1))"
| "read_as UInt8 m a = V_uint8 (from_le_bytes (load_bytes m a 1))"
| "read_as UInt16 m a = V_uint16 (from_le_bytes (load_bytes m a 2))"
| "read_as UInt32 m a = V_uint32 (from_le_bytes (load_bytes m a 4))"
| "read_as UInt64 m a = V_uint64 (from_le_bytes (load_bytes m a 8))"
| "read_as Int8 m a = V_int8 (from_le_bytes (load_bytes m a 1))"
| "read_as Int16 m a = V_int16 (from_le_bytes (load_bytes m a 2))"
| "read_as Int32 m a = V_int32 (from_le_bytes (load_bytes m a 4))"
| "read_as Int64 m a = V_int64 (from_le_bytes (load_bytes m a 8))"
| "read_as Float32 m a = V_float (from_le_bytes (load_bytes m a 4))"
| "read_as Float64 m a = V_double (from_le_bytes (load_bytes m a 8))"

text \<open>\<^verbatim>\<open>*(void**)p\<close> and \<^verbatim>\<open>*(void**)p = v\<close>.\<close>

definition load_ptr :: "(addr \<Rightarrow> byte) \<Rightarrow> addr \<Rightarrow> addr" where
  "load_ptr m a = from_le_bytes (load_bytes m a 8)"

definition store_ptr :: "(addr \<Rightarrow> byte) \<Rightarrow> addr \<Rightarrow> addr \<Rightarrow> (addr \<Rightarrow> byte)" where
  "store_ptr m a v = store_bytes m a (le_bytes 8 v)"

text \<open>An owned allocation of \<^verbatim>\<open>length bs\<close> bytes initialised with \<^verbatim>\<open>bs\<close>: its address and
  the heap after it. Exhaustion of the address space is not modelled.\<close>

definition alloc_init :: "byte list \<Rightarrow> heap \<Rightarrow> addr \<times> heap" where
  "alloc_init bs h =
     (brk h, \<lparr>mem = store_bytes (mem h) (brk h) bs, brk = brk h + of_nat (length bs)\<rparr>)"


section \<open>Typed memory handles and host values\<close>

datatype ownership = View | Owned

text \<open>
  Modelled from the spec: the handle classes of \<^verbatim>\<open>cobj.h\<close>. A handle is a descriptor, the
  address of its storage (\<^verbatim>\<open>dataPtr()\<close>, \<^verbatim>\<open>getData()\<close>) and an ownership mode.
  \<^verbatim>\<open>CBasicObj<T>\<close> is a class per C type \<^verbatim>\<open>T\<close>, named here by the kind of \<^verbatim>\<open>T\<close>. A
  \<^verbatim>\<open>CFunction\<close> wraps a native function: its type and the function's address.
\<close>

datatype cobj =
    CBasicObj basic_kind ctype addr ownership
  | CPointerObj ctype addr ownership
  | CStructObj ctype addr ownership
  | CUnionObj ctype addr ownership
  | CArrayObj ctype addr ownership
  | CFunction ctype addr

fun getType :: "cobj \<Rightarrow> ctype" where
  "getType (CBasicObj _ ty _ _) = ty"
| "getType (CPointerObj ty _ _) = ty"
| "getType (CStructObj ty _ _) = ty"
| "getType (CUnionObj ty _ _) = ty"
| "getType (CArrayObj ty _ _) = ty"
| "getType (CFunction ty _) = ty"

fun dataPtr :: "cobj \<Rightarrow> addr" where
  "dataPtr (CBasicObj _ _ a _) = a"
| "dataPtr (CPointerObj _ a _) = a"
| "dataPtr (CStructObj _ a _) = a"
| "dataPtr (CUnionObj _ a _) = a"
| "dataPtr (CArrayObj _ a _) = a"
| "dataPtr (CFunction _ a) = a"

text \<open>Modelled from the spec: \<^verbatim>\<open>CPointerObj::getPtr\<close> is the address value stored in the
  handle's own storage; \<^verbatim>\<open>CPointerObj::getPointeeType\<close> is the pointee of its type.\<close>

definition getPtr :: "(addr \<Rightarrow> byte) \<Rightarrow> cobj \<Rightarrow> addr" where
  "getPtr m obj = load_ptr m (dataPtr obj)"

fun getPointee :: "ctype \<Rightarrow> ctype \<times> bool" where
  "getPointee (PointerType pte c) = (pte, c)"
| "getPointee ty = (ty, False)"

text \<open>The result of \<^verbatim>\<open>py::buffer::request\<close>, as far as \<^verbatim>\<open>cobj.cpp\<close> reads or builds it.\<close>

record buffer_info =
  ptr :: addr
  itemsize :: int
  format :: string
  ndim :: int
  shape :: "int list"
  strides :: "int list"

text \<open>
  The host values that reach this file through \<^verbatim>\<open>py::handle\<close>: \<^verbatim>\<open>None\<close>, an integer, a
  float (the bits of its C double), a text string (its code points), a bytes object
  (the address of its internal buffer and its length), another exporter of the buffer
  protocol (what a request yields, and whether it is read-only), and a bound handle.
\<close>

datatype hostval =
    HNone
  | HInt int
  | HFloat "64 word"
  | HStr "nat list"
  | HBytes addr nat
  | HBuffer buffer_info bool
  | HObj cobj

datatype error =
    TypeError string
  | cast_error
  | value_error
  | error_already_set
  | assertion_failure
  | undefined_behaviour


section \<open>Conversions between host values and C values\<close>

text \<open>
  The float conversions of the platform: \<^verbatim>\<open>(float)d\<close>, \<^verbatim>\<open>(double)f\<close> on bit patterns, and
  \<^verbatim>\<open>PyFloat_AsDouble\<close> on a host integer (\<open>None\<close> when it overflows).
\<close>

record float_ops =
  double_to_float :: "64 word \<Rightarrow> 32 word"
  float_to_double :: "32 word \<Rightarrow> 64 word"
  int_to_double :: "int \<Rightarrow> 64 word option"

text \<open>The pybind11 integer caster: a host integer inside the range of \<^verbatim>\<open>T\<close>, nothing else.\<close>

definition int_caster :: "int \<Rightarrow> int \<Rightarrow> hostval \<Rightarrow> error + int" where
  "int_caster lo hi obj =
     (case obj of
        HInt i \<Rightarrow> if lo \<le> i \<and> i \<le> hi then Inr i else Inl cast_error
      | _ \<Rightarrow> Inl cast_error)"

text \<open>The pybind11 caster of \<^verbatim>\<open>char\<close>: a text string of one code point below 256, or a bytes
  object of length one.\<close>

definition char_caster :: "(addr \<Rightarrow> byte) \<Rightarrow> hostval \<Rightarrow> error + byte" where
  "char_caster m obj =
     (case obj of
        HStr s \<Rightarrow> (case s of [c] \<Rightarrow> if c < 256 then Inr (of_nat c) else Inl value_error
                   | _ \<Rightarrow> Inl value_error)
      | HBytes a n \<Rightarrow> if n = 1 then Inr (m a) else Inl value_error
      | HNone \<Rightarrow> Inl value_error
      | _ \<Rightarrow> Inl cast_error)"

definition double_caster :: "float_ops \<Rightarrow> hostval \<Rightarrow> error + 64 word" where
  "double_caster fp obj =
     (case obj of
        HFloat d \<Rightarrow> Inr d
      | HInt i \<Rightarrow> (case int_to_double fp i of Some d \<Rightarrow> Inr d | None \<Rightarrow> Inl cast_error)
      | _ \<Rightarrow> Inl cast_error)"

text \<open>\<^verbatim>\<open>Obj.cast<T>()\<close>, \<^verbatim>\<open>T\<close> being the C type of the kind.\<close>

fun py_cast_to :: "float_ops \<Rightarrow> (addr \<Rightarrow> byte) \<Rightarrow> basic_kind \<Rightarrow> hostval \<Rightarrow> error + cvalue" where
  "py_cast_to fp m Char_k obj = map_sum id V_char (char_caster m obj)"
| "py_cast_to fp m UInt8 obj = map_sum id (V_uint8 \<circ> word_of_int) (int_caster 0 255 obj)"
| "py_cast_to fp m UInt16 obj = map_sum id (V_uint16 \<circ> word_of_int) (int_caster 0 65535 obj)"
| "py_cast_to fp m UInt32 obj = map_sum id (V_uint32 \<circ> word_of_int) (int_caster 0 4294967295 obj)"
| "py_cast_to fp m UInt64 obj =
     map_sum id (V_uint64 \<circ> word_of_int) (int_caster 0 18446744073709551615 obj)"
| "py_cast_to fp m Int8 obj = map_sum id (V_int8 \<circ> word_of_int) (int_caster (-128) 127 obj)"
| "py_cast_to fp m Int16 obj = map_sum id (V_int16 \<circ> word_of_int) (int_caster (-32768) 32767 obj)"
| "py_cast_to fp m Int32 obj =
     map_sum id (V_int32 \<circ> word_of_int) (int_caster (-2147483648) 2147483647 obj)"
| "py_cast_to fp m Int64 obj =
     map_sum id (V_int64 \<circ> word_of_int)
       (int_caster (-9223372036854775808) 9223372036854775807 obj)"
| "py_cast_to fp m Float32 obj = map_sum id (V_float \<circ> double_to_float fp) (double_caster fp obj)"
| "py_cast_to fp m Float64 obj = map_sum id V_double (double_caster fp obj)"

text \<open>\<^verbatim>\<open>py::cast(v)\<close> for a C value \<^verbatim>\<open>v\<close>.\<close>

fun py_cast_from :: "float_ops \<Rightarrow> cvalue \<Rightarrow> hostval" where
  "py_cast_from fp (V_char w) = HStr [unat w]"
| "py_cast_from fp (V_uint8 w) = HInt (uint w)"
| "py_cast_from fp (V_uint16 w) = HInt (uint w)"
| "py_cast_from fp (V_uint32 w) = HInt (uint w)"
| "py_cast_from fp (V_uint64 w) = HInt (uint w)"
| "py_cast_from fp (V_int8 w) = HInt (sint w)"
| "py_cast_from fp (V_int16 w) = HInt (sint w)"
| "py_cast_from fp (V_int32 w) = HInt (sint w)"
| "py_cast_from fp (V_int64 w) = HInt (sint w)"
| "py_cast_from fp (V_float w) = HFloat (float_to_double fp w)"
| "py_cast_from fp (V_double w) = HFloat w"


section \<open>ValueSetter\<close>

text \<open>
  A setter takes the destination address, the host value and the heap; it returns the
  exception it threw or unit, and the heap it leaves behind.
\<close>

definition ValueSetter_case_basic ::
  "float_ops \<Rightarrow> basic_kind \<Rightarrow> addr \<Rightarrow> hostval \<Rightarrow> heap \<Rightarrow> (error + unit) \<times> heap" where
  "ValueSetter_case_basic fp T Ptr Obj h =
     (case py_cast_to fp (mem h) T Obj of
        Inl e \<Rightarrow> (Inl e, h)
      | Inr v \<Rightarrow> (Inr (), h\<lparr>mem := store_bytes (mem h) Ptr (object_repr v)\<rparr>))"

definition ValueSetter_case_pointer ::
  "ctype \<Rightarrow> addr \<Rightarrow> hostval \<Rightarrow> heap \<Rightarrow> (error + unit) \<times> heap" where
  "ValueSetter_case_pointer Ty Ptr Obj h =
     (case Obj of
        HObj (CPointerObj ty a ow) \<Rightarrow>
          (Inr (), h\<lparr>mem := store_ptr (mem h) Ptr (getPtr (mem h) (CPointerObj ty a ow))\<rparr>)
      | _ \<Rightarrow> (Inl cast_error, h))"

text \<open>\<^verbatim>\<open>memcpy(dst, src, n)\<close>.\<close>

definition memcpy :: "addr \<Rightarrow> addr \<Rightarrow> nat \<Rightarrow> heap \<Rightarrow> heap" where
  "memcpy dst src n h = h\<lparr>mem := store_bytes (mem h) dst (load_bytes (mem h) src n)\<rparr>"

definition ValueSetter_case_composite ::
  "ctype \<Rightarrow> addr \<Rightarrow> hostval \<Rightarrow> heap \<Rightarrow> (error + unit) \<times> heap" where
  "ValueSetter_case_composite Ty Ptr Obj h =
     (case Ty of
        StructType _ _ _ \<Rightarrow>
          (case Obj of
             HObj (CStructObj ty a ow) \<Rightarrow> (Inr (), memcpy Ptr a (getSize ty) h)
           | _ \<Rightarrow> (Inl cast_error, h))
      | _ \<Rightarrow>
          (case Obj of
             HObj (CUnionObj ty a ow) \<Rightarrow> (Inr (), memcpy Ptr a (getSize ty) h)
           | _ \<Rightarrow> (Inl cast_error, h)))"

definition ValueSetter_case_enum ::
  "float_ops \<Rightarrow> ctype \<Rightarrow> addr \<Rightarrow> hostval \<Rightarrow> heap \<Rightarrow> (error + unit) \<times> heap" where
  "ValueSetter_case_enum fp Ty Ptr Obj h = ValueSetter_case_basic fp EnumType_IntType Ptr Obj h"

definition ValueSetter_case_array ::
  "ctype \<Rightarrow> addr \<Rightarrow> hostval \<Rightarrow> heap \<Rightarrow> (error + unit) \<times> heap" where
  "ValueSetter_case_array Ty Ptr Obj h =
     (case Obj of
        HObj (CArrayObj ty a ow) \<Rightarrow> (Inr (), memcpy Ptr a (getSize Ty) h)
      | _ \<Rightarrow> (Inl cast_error, h))"

definition ValueSetter_case_func ::
  "ctype \<Rightarrow> addr \<Rightarrow> hostval \<Rightarrow> heap \<Rightarrow> (error + unit) \<times> heap" where
  "ValueSetter_case_func Ty Ptr Obj h =
     (Inl (TypeError ''unable to set a value to a function!''), h)"

text \<open>Modelled from the spec: \<^verbatim>\<open>TypeDispatcher<ValueSetter>::switch_\<close> of \<^verbatim>\<open>dispatcher.h\<close>
  invokes exactly the case of the descriptor's kind.\<close>

fun ValueSetter_switch ::
  "float_ops \<Rightarrow> ctype \<Rightarrow> addr \<Rightarrow> hostval \<Rightarrow> heap \<Rightarrow> (error + unit) \<times> heap" where
  "ValueSetter_switch fp (BasicType k) Ptr Obj h = ValueSetter_case_basic fp k Ptr Obj h"
| "ValueSetter_switch fp EnumType Ptr Obj h = ValueSetter_case_enum fp EnumType Ptr Obj h"
| "ValueSetter_switch fp (PointerType p c) Ptr Obj h =
     ValueSetter_case_pointer (PointerType p c) Ptr Obj h"
| "ValueSetter_switch fp (ArrayType el n) Ptr Obj h =
     ValueSetter_case_array (ArrayType el n) Ptr Obj h"
| "ValueSetter_switch fp (StructType n sz al) Ptr Obj h =
     ValueSetter_case_composite (StructType n sz al) Ptr Obj h"
| "ValueSetter_switch fp (UnionType n sz al) Ptr Obj h =
     ValueSetter_case_composite (UnionType n sz al) Ptr Obj h"
| "ValueSetter_switch fp (FunctionType ps r sz al) Ptr Obj h =
     ValueSetter_case_func (FunctionType ps r sz al) Ptr Obj h"


section \<open>ValueGetter\<close>

text \<open>A getter only reads: it takes the memory and returns the exception or the host
  value.\<close>

definition ValueGetter_case_basic ::
  "float_ops \<Rightarrow> basic_kind \<Rightarrow> addr \<Rightarrow> (addr \<Rightarrow> byte) \<Rightarrow> error + hostval" where
  "ValueGetter_case_basic fp T Ptr m = Inr (py_cast_from fp (read_as T m Ptr))"

definition ValueGetter_case_enum ::
  "float_ops \<Rightarrow> ctype \<Rightarrow> addr \<Rightarrow> (addr \<Rightarrow> byte) \<Rightarrow> error + hostval" where
  "ValueGetter_case_enum fp Ty Ptr m = Inr (py_cast_from fp (read_as EnumType_IntType m Ptr))"

definition ValueGetter_case_pointer :: "ctype \<Rightarrow> addr \<Rightarrow> (addr \<Rightarrow> byte) \<Rightarrow> error + hostval" where
  "ValueGetter_case_pointer Ty Ptr m = Inr (HObj (CPointerObj Ty Ptr View))"

definition ValueGetter_case_composite :: "ctype \<Rightarrow> addr \<Rightarrow> (addr \<Rightarrow> byte) \<Rightarrow> error + hostval" where
  "ValueGetter_case_composite Ty Ptr m =
     (case Ty of
        StructType _ _ _ \<Rightarrow> Inr (HObj (CStructObj Ty Ptr View))
      | _ \<Rightarrow> Inr (HObj (CUnionObj Ty Ptr View)))"

definition ValueGetter_case_array :: "ctype \<Rightarrow> addr \<Rightarrow> (addr \<Rightarrow> byte) \<Rightarrow> error + hostval" where
  "ValueGetter_case_array Ty Ptr m = Inr (HObj (CArrayObj Ty Ptr View))"

definition ValueGetter_case_func :: "ctype \<Rightarrow> addr \<Rightarrow> (addr \<Rightarrow> byte) \<Rightarrow> error + hostval" where
  "ValueGetter_case_func Ty Ptr m = Inl (TypeError ''unable to get a value as a function!'')"

text \<open>Modelled from the spec: \<^verbatim>\<open>TypeDispatcher<ValueGetter>::switch_\<close>.\<close>

fun ValueGetter_switch ::
  "float_ops \<Rightarrow> ctype \<Rightarrow> addr \<Rightarrow> (addr \<Rightarrow> byte) \<Rightarrow> error + hostval" where
  "ValueGetter_switch fp (BasicType k) Ptr m = ValueGetter_case_basic fp k Ptr m"
| "ValueGetter_switch fp EnumType Ptr m = ValueGetter_case_enum fp EnumType Ptr m"
| "ValueGetter_switch fp (PointerType p c) Ptr m = ValueGetter_case_pointer (PointerType p c) Ptr m"
| "ValueGetter_switch fp (ArrayType el n) Ptr m = ValueGetter_case_array (ArrayType el n) Ptr m"
| "ValueGetter_switch fp (StructType n sz al) Ptr m =
     ValueGetter_case_composite (StructType n sz al) Ptr m"
| "ValueGetter_switch fp (UnionType n sz al) Ptr m =
     ValueGetter_case_composite (UnionType n sz al) Ptr m"
| "ValueGetter_switch fp (FunctionType ps r sz al) Ptr m =
     ValueGetter_case_func (FunctionType ps r sz al) Ptr m"


section \<open>getFormatDescriptor\<close>

text \<open>\<^verbatim>\<open>py::format_descriptor<CTy>::format()\<close> of pybind11 for the C types of the table, where
  \<^verbatim>\<open>char\<close> is a signed type.\<close>

fun format_descriptor :: "basic_kind \<Rightarrow> string" where
  "format_descriptor Char_k = ''b''"
| "format_descriptor UInt8 = ''B''"
| "format_descriptor UInt16 = ''H''"
| "format_descriptor UInt32 = ''I''"
| "format_descriptor UInt64 = ''Q''"
| "format_descriptor Int8 = ''b''"
| "format_descriptor Int16 = ''h''"
| "format_descriptor Int32 = ''i''"
| "format_descriptor Int64 = ''q''"
| "format_descriptor Float32 = ''f''"
| "format_descriptor Float64 = ''d''"

text \<open>\<^verbatim>\<open>std::to_string\<close> and the stream insertion of an integer: decimal digits.\<close>

fun to_string :: "nat \<Rightarrow> string" where
  "to_string n =
     (if n < 10 then [''0123456789'' ! n]
      else to_string (n div 10) @ [''0123456789'' ! (n mod 10)])"

definition int_to_string :: "int \<Rightarrow> string" where
  "int_to_string i = (if i < 0 then CHR ''-'' # to_string (nat (- i)) else to_string (nat i))"

fun getFormatDescriptor :: "ctype \<Rightarrow> string" where
  "getFormatDescriptor (BasicType k) = format_descriptor k"
| "getFormatDescriptor Ty = to_string (getSize Ty) @ ''B''"


section \<open>ConvertArgsSwitch\<close>

text \<open>
  The state of one argument conversion: the heap, the \<^verbatim>\<open>ObjsHolder\<close> (handles owned by the
  call) and the \<^verbatim>\<open>PyObjsHolder\<close> (host objects kept alive for the call). A conversion
  returns the exception it threw or the \<^verbatim>\<open>CObj*\<close> it returned (\<open>None\<close> for a null pointer).
\<close>

record call_state =
  hp :: heap
  holders :: "cobj list"
  py_holders :: "hostval list"

text \<open>The body of the check is commented out in the source: the handle comes back as it is.\<close>

definition checkType :: "cobj option \<Rightarrow> ctype \<Rightarrow> cobj option" where
  "checkType obj Ty = obj"

text \<open>\<^verbatim>\<open>Data<T>::emplace_owned(v)\<close>: owned storage that holds \<^verbatim>\<open>v\<close>.\<close>

definition emplace_owned :: "byte list \<Rightarrow> call_state \<Rightarrow> addr \<times> call_state" where
  "emplace_owned bs s = (case alloc_init bs (hp s) of (a, h') \<Rightarrow> (a, s\<lparr>hp := h'\<rparr>))"

definition ConvertArgsSwitch_case_basic ::
  "float_ops \<Rightarrow> basic_kind \<Rightarrow> ctype \<Rightarrow> hostval \<Rightarrow> call_state
     \<Rightarrow> (error + cobj option) \<times> call_state" where
  "ConvertArgsSwitch_case_basic fp T Ty obj s =
     (case (case obj of HObj (CBasicObj T' ty a ow) \<Rightarrow>
                     if T' = T then Some (CBasicObj T' ty a ow) else None
                 | _ \<Rightarrow> None) of
        Some Ret \<Rightarrow> (Inr (Some Ret), s)
      | None \<Rightarrow>
          (case py_cast_to fp (mem (hp s)) T obj of
             Inl e \<Rightarrow> (Inl e, s)
           | Inr v \<Rightarrow>
               (case emplace_owned (object_repr v) s of
                  (a, s') \<Rightarrow>
                    (Inr (Some (CBasicObj T Ty a Owned)),
                     s'\<lparr>holders := holders s' @ [CBasicObj T Ty a Owned]\<rparr>))))"

definition ConvertArgsSwitch_case_enum ::
  "float_ops \<Rightarrow> ctype \<Rightarrow> hostval \<Rightarrow> call_state \<Rightarrow> (error + cobj option) \<times> call_state" where
  "ConvertArgsSwitch_case_enum fp Ty obj s =
     ConvertArgsSwitch_case_basic fp EnumType_IntType (BasicType EnumType_IntType) obj s"

text \<open>UTF-8 of one code point; a surrogate or a value above U+10FFFF has none.\<close>

definition utf8_char :: "nat \<Rightarrow> byte list option" where
  "utf8_char c =
     (if c < 128 then Some [of_nat c]
      else if c < 2048 then Some [of_nat (192 + c div 64), of_nat (128 + c mod 64)]
      else if 55296 \<le> c \<and> c < 57344 then None
      else if c < 65536 then
        Some [of_nat (224 + c div 4096), of_nat (128 + c div 64 mod 64), of_nat (128 + c mod 64)]
      else if c < 1114112 then
        Some [of_nat (240 + c div 262144), of_nat (128 + c div 4096 mod 64),
              of_nat (128 + c div 64 mod 64), of_nat (128 + c mod 64)]
      else None)"

fun utf8_encode :: "nat list \<Rightarrow> byte list option" where
  "utf8_encode [] = Some []"
| "utf8_encode (c # cs) =
     (case utf8_char c of
        None \<Rightarrow> None
      | Some bs \<Rightarrow> (case utf8_encode cs of None \<Rightarrow> None | Some rest \<Rightarrow> Some (bs @ rest)))"

text \<open>\<^verbatim>\<open>PyUnicode_AsUTF8String\<close>: a new bytes object that holds the encoding and a final
  zero byte, or no object when the string cannot be encoded.\<close>

definition PyUnicode_AsUTF8String :: "nat list \<Rightarrow> call_state \<Rightarrow> hostval option \<times> call_state" where
  "PyUnicode_AsUTF8String cs s =
     (case utf8_encode cs of
        None \<Rightarrow> (None, s)
      | Some bs \<Rightarrow>
          (case emplace_owned (bs @ [0]) s of (a, s') \<Rightarrow> (Some (HBytes a (length bs)), s')))"

text \<open>\<^verbatim>\<open>PYBIND11_BYTES_AS_STRING\<close>: the internal buffer of a bytes object, a null pointer for
  any other object.\<close>

definition BYTES_AS_STRING :: "hostval \<Rightarrow> addr" where
  "BYTES_AS_STRING obj = (case obj of HBytes a n \<Rightarrow> a | _ \<Rightarrow> 0)"

text \<open>Lines 207 to 222 of \<^verbatim>\<open>case_pointer\<close>: the pointee is a const \<^verbatim>\<open>char\<close>.\<close>

definition case_pointer_string ::
  "ctype \<Rightarrow> hostval \<Rightarrow> call_state \<Rightarrow> (error + cobj option) \<times> call_state" where
  "case_pointer_string Ty obj s =
     (case (case obj of
              HStr cs \<Rightarrow>
                (case PyUnicode_AsUTF8String cs s of
                   (None, s1) \<Rightarrow>
                     (Inl (TypeError ''Unable to extract string contents! (encoding issue)''), s1)
                 | (Some Buf, s1) \<Rightarrow> (Inr Buf, s1\<lparr>py_holders := py_holders s1 @ [Buf]\<rparr>))
            | _ \<Rightarrow> (Inr obj, s)) of
        (Inl e, s1) \<Rightarrow> (Inl e, s1)
      | (Inr Tmp, s1) \<Rightarrow>
          (if BYTES_AS_STRING Tmp = 0
           then (Inl (TypeError ''Unable to extract string contents! (invalid type)''), s1)
           else (case emplace_owned (le_bytes 8 (BYTES_AS_STRING Tmp)) s1 of
                   (a, s2) \<Rightarrow>
                     (Inr (Some (CPointerObj Ty a Owned)),
                      s2\<lparr>holders := holders s2 @ [CPointerObj Ty a Owned]\<rparr>))))"

text \<open>\<^verbatim>\<open>O.cast<py::buffer>()\<close> followed by \<^verbatim>\<open>B.request(writable)\<close>: a bytes object exports a
  read-only buffer of unsigned bytes.\<close>

definition buffer_request :: "bool \<Rightarrow> hostval \<Rightarrow> error + buffer_info" where
  "buffer_request writable obj =
     (case obj of
        HBytes a n \<Rightarrow>
          if writable then Inl error_already_set
          else Inr \<lparr>ptr = a, itemsize = 1, format = ''B'', ndim = 1,
                    shape = [int n], strides = [1]\<rparr>
      | HBuffer info ro \<Rightarrow> if writable \<and> ro then Inl error_already_set else Inr info
      | _ \<Rightarrow> Inl cast_error)"

text \<open>Modelled from the spec: \<^verbatim>\<open>ThrowError<TypeError>()\<close> of \<^verbatim>\<open>errors.h\<close> throws a
  \<^verbatim>\<open>TypeError\<close> with the text that was streamed into it. These are the two texts.\<close>

definition ndim_message :: "int \<Rightarrow> string" where
  "ndim_message n = ''buffer should have only one dimension, got '' @ int_to_string n @ ''!''"

definition format_message :: "string \<Rightarrow> string \<Rightarrow> string" where
  "format_message got expected =
     ''buffer doesn'' @ [CHR 0x27] @ ''t have the good format, got '' @ [CHR 0x27] @ got
       @ [CHR 0x27] @ '', expected '' @ [CHR 0x27] @ expected @ [CHR 0x27]"

text \<open>Lines 229 to 239 of \<^verbatim>\<open>case_pointer\<close>: the checks on the buffer that was obtained.\<close>

definition check_buffer ::
  "ctype \<Rightarrow> ctype \<Rightarrow> buffer_info \<Rightarrow> call_state \<Rightarrow> (error + cobj option) \<times> call_state" where
  "check_buffer Ty PteTy Info s =
     (if ndim Info \<noteq> 1
      then (Inl (TypeError (ndim_message (ndim Info))), s)
      else if format Info \<noteq> getFormatDescriptor PteTy
      then (Inl (TypeError (format_message (format Info) (getFormatDescriptor PteTy))), s)
      else (case emplace_owned (le_bytes 8 (ptr Info)) s of
              (a, s') \<Rightarrow>
                (Inr (Some (CPointerObj Ty a Owned)),
                 s'\<lparr>holders := holders s' @ [CPointerObj Ty a Owned]\<rparr>)))"

text \<open>Lines 227 to 239 of \<^verbatim>\<open>case_pointer\<close>.\<close>

definition case_pointer_buffer ::
  "ctype \<Rightarrow> ctype \<Rightarrow> bool \<Rightarrow> hostval \<Rightarrow> call_state \<Rightarrow> (error + cobj option) \<times> call_state" where
  "case_pointer_buffer Ty PteTy isWritable obj s =
     (case buffer_request isWritable obj of
        Inl e \<Rightarrow> (Inl e, s)
      | Inr Info \<Rightarrow> check_buffer Ty PteTy Info s)"

definition ConvertArgsSwitch_case_pointer ::
  "ctype \<Rightarrow> hostval \<Rightarrow> call_state \<Rightarrow> (error + cobj option) \<times> call_state" where
  "ConvertArgsSwitch_case_pointer Ty obj s =
     (case obj of
        HObj (CPointerObj ty a ow) \<Rightarrow> (Inr (checkType (Some (CPointerObj ty a ow)) Ty), s)
      | _ \<Rightarrow>
          (case getPointee Ty of
             (PteTy, hasConst) \<Rightarrow>
               (if hasConst \<and> PteTy = BasicType Char_k
                then case_pointer_string Ty obj s
                else case_pointer_buffer Ty PteTy (\<not> hasConst) obj s)))"

text \<open>\<^verbatim>\<open>O.cast<C*>()\<close> for a handle class \<^verbatim>\<open>C\<close>: \<^verbatim>\<open>None\<close> converts to a null pointer, an
  object of another class does not convert.\<close>

definition ConvertArgsSwitch_case_composite ::
  "ctype \<Rightarrow> hostval \<Rightarrow> call_state \<Rightarrow> (error + cobj option) \<times> call_state" where
  "ConvertArgsSwitch_case_composite Ty obj s =
     (case Ty of
        StructType _ _ _ \<Rightarrow>
          (case obj of
             HObj (CStructObj ty a ow) \<Rightarrow> (Inr (checkType (Some (CStructObj ty a ow)) Ty), s)
           | HNone \<Rightarrow> (Inr (checkType None Ty), s)
           | _ \<Rightarrow> (Inl cast_error, s))
      | _ \<Rightarrow>
          (case obj of
             HObj (CUnionObj ty a ow) \<Rightarrow> (Inr (checkType (Some (CUnionObj ty a ow)) Ty), s)
           | HNone \<Rightarrow> (Inr (checkType None Ty), s)
           | _ \<Rightarrow> (Inl cast_error, s)))"

definition ConvertArgsSwitch_case_array ::
  "ctype \<Rightarrow> hostval \<Rightarrow> call_state \<Rightarrow> (error + cobj option) \<times> call_state" where
  "ConvertArgsSwitch_case_array Ty obj s =
     (case obj of
        HObj (CArrayObj ty a ow) \<Rightarrow> (Inr (checkType (Some (CArrayObj ty a ow)) Ty), s)
      | HNone \<Rightarrow> (Inr (checkType None Ty), s)
      | _ \<Rightarrow> (Inl cast_error, s))"

definition ConvertArgsSwitch_case_func ::
  "ctype \<Rightarrow> hostval \<Rightarrow> call_state \<Rightarrow> (error + cobj option) \<times> call_state" where
  "ConvertArgsSwitch_case_func Ty obj s =
     (case obj of
        HObj (CFunction ty a) \<Rightarrow> (Inr (checkType (Some (CFunction ty a)) Ty), s)
      | HNone \<Rightarrow> (Inr (checkType None Ty), s)
      | _ \<Rightarrow> (Inl cast_error, s))"

text \<open>Modelled from the spec: \<^verbatim>\<open>ConvertArgs::switch_\<close>, the dispatcher over
  \<^verbatim>\<open>ConvertArgsSwitch\<close>.\<close>

fun ConvertArgs_switch ::
  "float_ops \<Rightarrow> ctype \<Rightarrow> hostval \<Rightarrow> call_state \<Rightarrow> (error + cobj option) \<times> call_state" where
  "ConvertArgs_switch fp (BasicType k) obj s =
     ConvertArgsSwitch_case_basic fp k (BasicType k) obj s"
| "ConvertArgs_switch fp EnumType obj s = ConvertArgsSwitch_case_enum fp EnumType obj s"
| "ConvertArgs_switch fp (PointerType p c) obj s =
     ConvertArgsSwitch_case_pointer (PointerType p c) obj s"
| "ConvertArgs_switch fp (ArrayType el n) obj s =
     ConvertArgsSwitch_case_array (ArrayType el n) obj s"
| "ConvertArgs_switch fp (StructType n sz al) obj s =
     ConvertArgsSwitch_case_composite (StructType n sz al) obj s"
| "ConvertArgs_switch fp (UnionType n sz al) obj s =
     ConvertArgsSwitch_case_composite (UnionType n sz al) obj s"
| "ConvertArgs_switch fp (FunctionType ps r sz al) obj s =
     ConvertArgsSwitch_case_func (FunctionType ps r sz al) obj s"


section \<open>CreateObjSwitch\<close>

text \<open>Modelled from the spec: a handle constructed from its descriptor alone owns a
  zero-initialised allocation of the size of its C type.\<close>

definition new_owned :: "nat \<Rightarrow> call_state \<Rightarrow> addr \<times> call_state" where
  "new_owned n s = emplace_owned (replicate n 0) s"

text \<open>Modelled from the spec: \<^verbatim>\<open>CreateObj::switch_\<close> with the cases of \<^verbatim>\<open>CreateObjSwitch\<close>;
  \<^verbatim>\<open>Ty->getFunction(nullptr)\<close> binds the function type to the null address.\<close>

fun CreateObj_switch :: "ctype \<Rightarrow> call_state \<Rightarrow> cobj \<times> call_state" where
  "CreateObj_switch (BasicType k) s =
     (case new_owned (sizeof_basic k) s of (a, s') \<Rightarrow> (CBasicObj k (BasicType k) a Owned, s'))"
| "CreateObj_switch EnumType s =
     (case new_owned (sizeof_basic EnumType_IntType) s of
        (a, s') \<Rightarrow> (CBasicObj EnumType_IntType (BasicType EnumType_IntType) a Owned, s'))"
| "CreateObj_switch (PointerType p c) s =
     (case new_owned sizeof_uintptr_t s of (a, s') \<Rightarrow> (CPointerObj (PointerType p c) a Owned, s'))"
| "CreateObj_switch (StructType n sz al) s =
     (case new_owned sz s of (a, s') \<Rightarrow> (CStructObj (StructType n sz al) a Owned, s'))"
| "CreateObj_switch (UnionType n sz al) s =
     (case new_owned sz s of (a, s') \<Rightarrow> (CUnionObj (UnionType n sz al) a Owned, s'))"
| "CreateObj_switch (ArrayType el n) s =
     (case new_owned (getSize (ArrayType el n)) s of
        (a, s') \<Rightarrow> (CArrayObj (ArrayType el n) a Owned, s'))"
| "CreateObj_switch (FunctionType ps r sz al) s = (CFunction (FunctionType ps r sz al) 0, s)"


section \<open>CFunction::call\<close>

text \<open>
  The loop over \<^verbatim>\<open>Args\<close>: \<^verbatim>\<open>I\<close> is the index of the next parameter and \<^verbatim>\<open>Ptrs\<close> the
  addresses collected so far. \<^verbatim>\<open>FTy->getParams()[I]\<close> beyond the parameters and
  \<^verbatim>\<open>AObj->dataPtr()\<close> on a null handle are undefined behaviour.
\<close>

fun convert_args ::
  "float_ops \<Rightarrow> (ctype \<times> bool) list \<Rightarrow> nat \<Rightarrow> hostval list \<Rightarrow> addr list \<Rightarrow> call_state
     \<Rightarrow> (error + addr list) \<times> call_state" where
  "convert_args fp Params I [] Ptrs s = (Inr Ptrs, s)"
| "convert_args fp Params I (A # Args) Ptrs s =
     (if I < length Params then
        (case ConvertArgs_switch fp (fst (Params ! I)) A s of
           (Inl e, s') \<Rightarrow> (Inl e, s')
         | (Inr None, s') \<Rightarrow> (Inl undefined_behaviour, s')
         | (Inr (Some AObj), s') \<Rightarrow> convert_args fp Params (I + 1) Args (Ptrs @ [dataPtr AObj]) s')
      else (Inl undefined_behaviour, s))"

text \<open>
  \<^verbatim>\<open>NF_.call(ret, &Ptrs[0])\<close> is the native call: a function of the callee's address, the
  return slot, the argument addresses and the memory, giving the memory after the call.
  \<^verbatim>\<open>ndebug\<close> tells whether the build defines \<^verbatim>\<open>NDEBUG\<close>, which removes the \<^verbatim>\<open>assert\<close>; a
  failed assertion aborts the process.
\<close>

type_synonym native_call =
  "addr \<Rightarrow> addr option \<Rightarrow> addr list \<Rightarrow> (addr \<Rightarrow> byte) \<Rightarrow> (addr \<Rightarrow> byte)"

definition CFunction_call ::
  "bool \<Rightarrow> float_ops \<Rightarrow> native_call \<Rightarrow> cobj \<Rightarrow> hostval list \<Rightarrow> heap \<Rightarrow> (error + hostval) \<times> heap" where
  "CFunction_call ndebug fp NF self Args h =
     (case getType self of
        FunctionType Params RetTy sz al \<Rightarrow>
          (if \<not> ndebug \<and> length Args \<noteq> length Params then (Inl assertion_failure, h)
           else
             (case convert_args fp Params 0 Args [] \<lparr>hp = h, holders = [], py_holders = []\<rparr> of
                (Inl e, s) \<Rightarrow> (Inl e, hp s)
              | (Inr Ptrs, s) \<Rightarrow>
                  (case RetTy of
                     None \<Rightarrow>
                       (Inr HNone, (hp s)\<lparr>mem := NF (dataPtr self) None Ptrs (mem (hp s))\<rparr>)
                   | Some rt \<Rightarrow>
                       (case CreateObj_switch rt s of
                          (RetObj, s') \<Rightarrow>
                            (Inr (HObj RetObj),
                             (hp s')\<lparr>mem := NF (dataPtr self) (Some (dataPtr RetObj)) Ptrs
                                               (mem (hp s'))\<rparr>)))))
      | _ \<Rightarrow> (Inl undefined_behaviour, h))"


section \<open>Memory views of a pointer handle\<close>

text \<open>\<^verbatim>\<open>static_cast<ssize_t>\<close> of a \<^verbatim>\<open>size_t\<close> value.\<close>

definition to_ssize_t :: "nat \<Rightarrow> int" where
  "to_ssize_t n = sint (of_nat n :: 64 word)"

text \<open>The view is the \<^verbatim>\<open>buffer_info\<close> that the one-dimensional constructor of pybind11
  builds from a pointer, an item size, a format and an element count.\<close>

definition getMemoryView :: "(addr \<Rightarrow> byte) \<Rightarrow> cobj \<Rightarrow> nat \<Rightarrow> buffer_info" where
  "getMemoryView m self Len =
     (case getPointee (getType self) of
        (PointeeTy, c) \<Rightarrow>
          \<lparr>ptr = getPtr m self,
           itemsize = to_ssize_t (getSize PointeeTy),
           format = getFormatDescriptor PointeeTy,
           ndim = 1,
           shape = [to_ssize_t (getSize PointeeTy * Len)],
           strides = [to_ssize_t (getSize PointeeTy)]\<rparr>)"

text \<open>\<^verbatim>\<open>strlen\<close>: the scan for the first zero byte from \<^verbatim>\<open>p\<close>; it does not return where
  there is none.\<close>

partial_function (option) strlen_from :: "(addr \<Rightarrow> byte) \<Rightarrow> addr \<Rightarrow> nat \<Rightarrow> nat option" where
  "strlen_from m p n = (if m (p + of_nat n) = 0 then Some n else strlen_from m p (n + 1))"

definition strlen :: "(addr \<Rightarrow> byte) \<Rightarrow> addr \<Rightarrow> nat option" where
  "strlen m p = strlen_from m p 0"

text \<open>Modelled from the spec: \<^verbatim>\<open>BasicType::getKind<char>()\<close> is the kind of \<^verbatim>\<open>char\<close>.\<close>

definition CharKind :: basic_kind where
  "CharKind = Char_k"

text \<open>\<open>None\<close> stands for a call that does not return.\<close>

definition getMemoryViewCStr :: "(addr \<Rightarrow> byte) \<Rightarrow> cobj \<Rightarrow> (error + buffer_info) option" where
  "getMemoryViewCStr m self =
     (case getPointee (getType self) of
        (PteeType, c) \<Rightarrow>
          (if (case PteeType of BasicType k \<Rightarrow> k \<noteq> CharKind | _ \<Rightarrow> True)
           then Some (Inl (TypeError ''pointer must be a pointer to char*!''))
           else (case strlen m (getPtr m self) of
                   None \<Rightarrow> None
                 | Some Len \<Rightarrow> Some (Inr (getMemoryView m self Len)))))"


section \<open>Casts\<close>

text \<open>A cast returns the handle it built, or \<open>None\<close> for the null \<^verbatim>\<open>unique_ptr\<close>, and the heap
  after its allocation. \<^verbatim>\<open>CBasicObj<uintptr_t>\<close> is the class of the 64-bit unsigned type.\<close>

definition CPointerObj_cast :: "cobj \<Rightarrow> ctype \<Rightarrow> heap \<Rightarrow> cobj option \<times> heap" where
  "CPointerObj_cast self To h =
     (case To of
        BasicType k \<Rightarrow>
          (if getSize To = sizeof_uintptr_t
           then (case alloc_init (le_bytes 8 (getPtr (mem h) self)) h of
                   (a, h') \<Rightarrow> (Some (CBasicObj UInt64 To a Owned), h'))
           else (None, h))
      | PointerType p c \<Rightarrow>
          (case alloc_init (le_bytes 8 (getPtr (mem h) self)) h of
             (a, h') \<Rightarrow> (Some (CPointerObj To a Owned), h'))
      | _ \<Rightarrow> (None, h))"

text \<open>The remainder by an alignment of zero is undefined behaviour; it is computed only
  when the sizes are equal.\<close>

definition CArrayObj_cast :: "cobj \<Rightarrow> ctype \<Rightarrow> heap \<Rightarrow> (error + cobj option) \<times> heap" where
  "CArrayObj_cast self To h =
     (case To of
        ArrayType el n \<Rightarrow>
          (if getSize To = getSize (getType self) then
             (if getAlign To = 0 then (Inl undefined_behaviour, h)
              else if unat (dataPtr self) mod getAlign To = 0
              then (Inr (Some (CArrayObj To (dataPtr self) View)), h)
              else (Inr None, h))
           else (Inr None, h))
      | PointerType p c \<Rightarrow>
          (case alloc_init (le_bytes 8 (dataPtr self)) h of
             (a, h') \<Rightarrow> (Inr (Some (CPointerObj To a Owned)), h'))
      | _ \<Rightarrow> (Inr None, h))"

definition isa_CompositeType :: "ctype \<Rightarrow> bool" where
  "isa_CompositeType Ty =
     (case Ty of StructType _ _ _ \<Rightarrow> True | UnionType _ _ _ \<Rightarrow> True | _ \<Rightarrow> False)"

definition CCompositeObj_cast :: "cobj \<Rightarrow> ctype \<Rightarrow> heap \<Rightarrow> (error + cobj option) \<times> heap" where
  "CCompositeObj_cast self To h =
     (case To of
        PointerType p c \<Rightarrow>
          (case alloc_init (le_bytes 8 (dataPtr self)) h of
             (a, h') \<Rightarrow> (Inr (Some (CPointerObj To a Owned)), h'))
      | _ \<Rightarrow>
          (if isa_CompositeType To then
             (if getSize To = getSize (getType self) then
                (if getAlign To = 0 then (Inl undefined_behaviour, h)
                 else if unat (dataPtr self) mod getAlign To = 0
                 then (case To of
                         StructType _ _ _ \<Rightarrow> (Inr (Some (CStructObj To (dataPtr self) View)), h)
                       | _ \<Rightarrow> (Inr (Some (CUnionObj To (dataPtr self) View)), h))
                 else (Inr None, h))
              else (Inr None, h))
           else (Inr None, h)))"


section \<open>Vocabulary of the properties\<close>

text \<open>
  The host values of a basic kind: the integers of its range, the one-character strings
  of \<^verbatim>\<open>char\<close>, every double for \<^verbatim>\<open>double\<close> (zero, infinities and NaNs included) and, for
  \<^verbatim>\<open>float\<close>, the doubles that the conversion to \<^verbatim>\<open>float\<close> and back leaves unchanged.
\<close>

fun value_of_kind :: "float_ops \<Rightarrow> basic_kind \<Rightarrow> hostval \<Rightarrow> bool" where
  "value_of_kind fp Char_k v = (case v of HStr [c] \<Rightarrow> c < 256 | _ \<Rightarrow> False)"
| "value_of_kind fp UInt8 v = (case v of HInt i \<Rightarrow> 0 \<le> i \<and> i \<le> 255 | _ \<Rightarrow> False)"
| "value_of_kind fp UInt16 v = (case v of HInt i \<Rightarrow> 0 \<le> i \<and> i \<le> 65535 | _ \<Rightarrow> False)"
| "value_of_kind fp UInt32 v = (case v of HInt i \<Rightarrow> 0 \<le> i \<and> i \<le> 4294967295 | _ \<Rightarrow> False)"
| "value_of_kind fp UInt64 v =
     (case v of HInt i \<Rightarrow> 0 \<le> i \<and> i \<le> 18446744073709551615 | _ \<Rightarrow> False)"
| "value_of_kind fp Int8 v = (case v of HInt i \<Rightarrow> - 128 \<le> i \<and> i \<le> 127 | _ \<Rightarrow> False)"
| "value_of_kind fp Int16 v = (case v of HInt i \<Rightarrow> - 32768 \<le> i \<and> i \<le> 32767 | _ \<Rightarrow> False)"
| "value_of_kind fp Int32 v =
     (case v of HInt i \<Rightarrow> - 2147483648 \<le> i \<and> i \<le> 2147483647 | _ \<Rightarrow> False)"
| "value_of_kind fp Int64 v =
     (case v of HInt i \<Rightarrow> - 9223372036854775808 \<le> i \<and> i \<le> 9223372036854775807
      | _ \<Rightarrow> False)"
| "value_of_kind fp Float32 v =
     (case v of HFloat d \<Rightarrow> float_to_double fp (double_to_float fp d) = d | _ \<Rightarrow> False)"
| "value_of_kind fp Float64 v = (case v of HFloat d \<Rightarrow> True | _ \<Rightarrow> False)"



section \<open>Bytes in memory\<close>

lemma length_le_bytes: "length (le_bytes n w) = n"
  by (simp add: le_bytes_def)

lemma div8_step:
  assumes "\<not> k < (8::nat)"
  shows "(k - 8) div 8 = k div 8 - 1" and "(k - 8) mod 8 = k mod 8" and "k div 8 > 0"
proof -
  from assms obtain j where k: "k = j + 8" by (metis le_add_diff_inverse2 not_less)
  show "(k - 8) div 8 = k div 8 - 1" by (simp add: k)
  show "(k - 8) mod 8 = k mod 8" by (simp add: k)
  show "k div 8 > 0" by (simp add: k)
qed

lemma bit_byte_high: "8 \<le> k \<Longrightarrow> \<not> bit (b :: byte) k"
  using bit_imp_le_length [of b k] by auto

lemma bit_from_le_bytes:
  "bit (from_le_bytes bs :: 'a::len word) k \<longleftrightarrow>
     k < LENGTH('a) \<and> k div 8 < length bs \<and> bit (bs ! (k div 8)) (k mod 8)"
proof (induction bs arbitrary: k)
  case Nil
  then show ?case by simp
next
  case (Cons b bs)
  show ?case
  proof (cases "k < 8")
    case True
    then have "bit (from_le_bytes (b # bs) :: 'a word) k \<longleftrightarrow> k < LENGTH('a) \<and> bit b k"
      by (simp add: bit_or_iff bit_ucast_iff bit_push_bit_iff)
    with True show ?thesis by simp
  next
    case False
    note d = div8_step [OF False]
    from False have "\<not> bit b k" by (simp add: bit_byte_high)
    then have "bit (from_le_bytes (b # bs) :: 'a word) k \<longleftrightarrow>
        k < LENGTH('a) \<and> bit (from_le_bytes bs :: 'a word) (k - 8)"
      using False by (simp add: bit_or_iff bit_ucast_iff bit_push_bit_iff not_less)
    also have "\<dots> \<longleftrightarrow> k < LENGTH('a) \<and> (k - 8) div 8 < length bs
        \<and> bit (bs ! ((k - 8) div 8)) ((k - 8) mod 8)"
      using Cons.IH [of "k - 8"] by auto
    also have "\<dots> \<longleftrightarrow> k < LENGTH('a) \<and> k div 8 < length (b # bs)
        \<and> bit ((b # bs) ! (k div 8)) (k mod 8)"
      using d by (cases "k div 8") auto
    finally show ?thesis .
  qed
qed

lemma from_le_bytes_le_bytes:
  "LENGTH('a) \<le> 8 * n \<Longrightarrow> from_le_bytes (le_bytes n w) = (w :: 'a::len word)"
  by (rule bit_word_eqI) (auto simp: bit_from_le_bytes le_bytes_def bit_simps)

lemma store_bytes_other:
  "(\<forall>k < length bs. a + of_nat k \<noteq> x) \<Longrightarrow> store_bytes m a bs x = m x"
proof (induction bs arbitrary: m a)
  case Nil
  then show ?case by simp
next
  case (Cons b bs)
  have "\<forall>k < length bs. (a + 1) + of_nat k \<noteq> x"
  proof (intro allI impI)
    fix k assume "k < length bs"
    then have "a + of_nat (Suc k) \<noteq> x" using Cons.prems by auto
    then show "(a + 1) + of_nat k \<noteq> x" by (simp add: ac_simps)
  qed
  then have "store_bytes (m(a := b)) (a + 1) bs x = (m(a := b)) x"
    by (rule Cons.IH)
  moreover have "a \<noteq> x" using Cons.prems [rule_format, of 0] by simp
  ultimately show ?case by simp
qed

lemma of_nat_Suc_neq_0:
  assumes "k < 2 ^ 64 - 1" shows "(1 + of_nat k :: 64 word) \<noteq> 0"
proof -
  from assms have "Suc k < 2 ^ LENGTH(64)" by simp
  then have "unat (of_nat (Suc k) :: 64 word) = Suc k"
    by (rule of_nat_inverse [OF refl])
  then have "(of_nat (Suc k) :: 64 word) \<noteq> 0" by force
  then show ?thesis by simp
qed

lemma load_store_bytes:
  "length bs < 2 ^ 64 \<Longrightarrow> load_bytes (store_bytes m a bs) a (length bs) = bs"
proof (induction bs arbitrary: m a)
  case Nil
  then show ?case by simp
next
  case (Cons b bs)
  have "\<forall>k < length bs. (a + 1) + of_nat k \<noteq> a"
  proof (intro allI impI)
    fix k assume "k < length bs"
    with Cons.prems have "k < 2 ^ 64 - 1" by simp
    then have "(1 + of_nat k :: 64 word) \<noteq> 0" by (rule of_nat_Suc_neq_0)
    then show "(a + 1) + of_nat k \<noteq> a" by (simp add: add.assoc)
  qed
  then have "store_bytes (m(a := b)) (a + 1) bs a = b"
    by (simp add: store_bytes_other)
  moreover have "load_bytes (store_bytes (m(a := b)) (a + 1) bs) (a + 1) (length bs) = bs"
    using Cons.prems by (intro Cons.IH) simp
  ultimately show ?case by simp
qed

lemma read_back:
  assumes "LENGTH('a) \<le> 8 * n" and "n < 2 ^ 64"
  shows "from_le_bytes (load_bytes (store_bytes m a (le_bytes n w)) a n) = (w :: 'a::len word)"
proof -
  have "load_bytes (store_bytes m a (le_bytes n w)) a (length (le_bytes n w)) = le_bytes n w"
    using assms(2) by (intro load_store_bytes) (simp add: length_le_bytes)
  then show ?thesis using assms(1) by (simp add: length_le_bytes from_le_bytes_le_bytes)
qed

lemma uint_of_int_range:
  "0 \<le> i \<Longrightarrow> i < 2 ^ LENGTH('a) \<Longrightarrow> uint (word_of_int i :: 'a::len word) = i"
  by (simp add: uint_word_of_int)

lemma sint_of_int_range:
  "- (2 ^ (LENGTH('a) - 1)) \<le> i \<Longrightarrow> i < 2 ^ (LENGTH('a) - 1) \<Longrightarrow>
   sint (word_of_int i :: 'a::len word) = i"
  by (simp add: sint_sbintrunc' signed_take_bit_int_eq_self)

lemma unat_of_nat_byte: "c < 256 \<Longrightarrow> unat (of_nat c :: byte) = c"
  by (rule of_nat_inverse [OF refl]) simp


section \<open>Getter and setter\<close>

text \<open>
  Claim C3. For a descriptor of kind Function, the setter and the getter both throw
  \<^verbatim>\<open>TypeError\<close>, and the setter leaves the heap as it was (the getter only reads).
\<close>

theorem function_get_set_TypeError:
  "ValueSetter_switch fp (FunctionType ps r sz al) Ptr Obj h =
      (Inl (TypeError ''unable to set a value to a function!''), h)
   \<and> ValueGetter_switch fp (FunctionType ps r sz al) Ptr (mem h) =
      Inl (TypeError ''unable to get a value as a function!'')"
  by (simp add: ValueSetter_case_func_def ValueGetter_case_func_def)

lemma set_get_basic:
  assumes "py_cast_to fp (mem h) k v = Inr cv"
    and "read_as k (store_bytes (mem h) Ptr (object_repr cv)) Ptr = cv"
    and "py_cast_from fp cv = v"
  shows "fst (ValueSetter_switch fp (BasicType k) Ptr v h) = Inr () \<and>
     ValueGetter_switch fp (BasicType k) Ptr
       (mem (snd (ValueSetter_switch fp (BasicType k) Ptr v h))) = Inr v"
  using assms by (simp add: ValueSetter_case_basic_def ValueGetter_case_basic_def)

lemma read_back1: "from_le_bytes (load_bytes (store_bytes m a (le_bytes 1 w)) a 1) = (w :: 8 word)"
  by (rule read_back) simp_all

lemma read_back2: "from_le_bytes (load_bytes (store_bytes m a (le_bytes 2 w)) a 2) = (w :: 16 word)"
  by (rule read_back) simp_all

lemma read_back4: "from_le_bytes (load_bytes (store_bytes m a (le_bytes 4 w)) a 4) = (w :: 32 word)"
  by (rule read_back) simp_all

lemma read_back8: "from_le_bytes (load_bytes (store_bytes m a (le_bytes 8 w)) a 8) = (w :: 64 word)"
  by (rule read_back) simp_all

lemma read_as_object_repr:
  "read_as Char_k (store_bytes m a (object_repr (V_char b))) a = V_char b"
  "read_as UInt8 (store_bytes m a (object_repr (V_uint8 b))) a = V_uint8 b"
  "read_as UInt16 (store_bytes m a (object_repr (V_uint16 w16))) a = V_uint16 w16"
  "read_as UInt32 (store_bytes m a (object_repr (V_uint32 w32))) a = V_uint32 w32"
  "read_as UInt64 (store_bytes m a (object_repr (V_uint64 w64))) a = V_uint64 w64"
  "read_as Int8 (store_bytes m a (object_repr (V_int8 b))) a = V_int8 b"
  "read_as Int16 (store_bytes m a (object_repr (V_int16 w16))) a = V_int16 w16"
  "read_as Int32 (store_bytes m a (object_repr (V_int32 w32))) a = V_int32 w32"
  "read_as Int64 (store_bytes m a (object_repr (V_int64 w64))) a = V_int64 w64"
  "read_as Float32 (store_bytes m a (object_repr (V_float w32))) a = V_float w32"
  "read_as Float64 (store_bytes m a (object_repr (V_double w64))) a = V_double w64"
  by (simp_all only: read_as.simps object_repr.simps read_back1 read_back2 read_back4 read_back8)

lemma uint_word_of_int_kind:
  "0 \<le> i \<Longrightarrow> i \<le> 255 \<Longrightarrow> uint (word_of_int i :: 8 word) = i"
  "0 \<le> i \<Longrightarrow> i \<le> 65535 \<Longrightarrow> uint (word_of_int i :: 16 word) = i"
  "0 \<le> i \<Longrightarrow> i \<le> 4294967295 \<Longrightarrow> uint (word_of_int i :: 32 word) = i"
  "0 \<le> i \<Longrightarrow> i \<le> 18446744073709551615 \<Longrightarrow> uint (word_of_int i :: 64 word) = i"
  by (rule uint_of_int_range; simp)+

lemma sint_word_of_int_kind:
  "- 128 \<le> i \<Longrightarrow> i \<le> 127 \<Longrightarrow> sint (word_of_int i :: 8 word) = i"
  "- 32768 \<le> i \<Longrightarrow> i \<le> 32767 \<Longrightarrow> sint (word_of_int i :: 16 word) = i"
  "- 2147483648 \<le> i \<Longrightarrow> i \<le> 2147483647 \<Longrightarrow> sint (word_of_int i :: 32 word) = i"
  "- 9223372036854775808 \<le> i \<Longrightarrow> i \<le> 9223372036854775807 \<Longrightarrow>
     sint (word_of_int i :: 64 word) = i"
  by (rule sint_of_int_range; simp)+

lemma int_caster_in_range: "lo \<le> i \<Longrightarrow> i \<le> hi \<Longrightarrow> int_caster lo hi (HInt i) = Inr i"
  by (simp add: int_caster_def)

text \<open>
  Claim C8. For every basic kind \<open>k\<close> and every host value \<open>v\<close> of that kind, setting \<open>v\<close> at
  an address succeeds and getting the value at that address afterwards yields \<open>v\<close>.
\<close>

theorem basic_set_get_round_trip:
  assumes "value_of_kind fp k v"
  shows "fst (ValueSetter_switch fp (BasicType k) Ptr v h) = Inr () \<and>
     ValueGetter_switch fp (BasicType k) Ptr
       (mem (snd (ValueSetter_switch fp (BasicType k) Ptr v h))) = Inr v"
proof (cases k)
  case Char_k
  with assms obtain c where v: "v = HStr [c]" and c: "c < 256"
    by (auto split: hostval.splits list.splits)
  show ?thesis unfolding Char_k
    by (rule set_get_basic [where cv = "V_char (of_nat c)"])
       (simp_all only: read_as_object_repr, simp_all add: v c char_caster_def unat_of_nat_byte)
next
  case UInt8
  with assms obtain i where v: "v = HInt i" and r: "0 \<le> i" "i \<le> 255"
    by (auto split: hostval.splits)
  show ?thesis unfolding UInt8
    by (rule set_get_basic [where cv = "V_uint8 (word_of_int i)"])
       (simp_all only: read_as_object_repr, simp_all add: v r int_caster_in_range uint_word_of_int_kind)
next
  case UInt16
  with assms obtain i where v: "v = HInt i" and r: "0 \<le> i" "i \<le> 65535"
    by (auto split: hostval.splits)
  show ?thesis unfolding UInt16
    by (rule set_get_basic [where cv = "V_uint16 (word_of_int i)"])
       (simp_all only: read_as_object_repr, simp_all add: v r int_caster_in_range uint_word_of_int_kind)
next
  case UInt32
  with assms obtain i where v: "v = HInt i" and r: "0 \<le> i" "i \<le> 4294967295"
    by (auto split: hostval.splits)
  show ?thesis unfolding UInt32
    by (rule set_get_basic [where cv = "V_uint32 (word_of_int i)"])
       (simp_all only: read_as_object_repr, simp_all add: v r int_caster_in_range uint_word_of_int_kind)
next
  case UInt64
  with assms obtain i where v: "v = HInt i" and r: "0 \<le> i" "i \<le> 18446744073709551615"
    by (auto split: hostval.splits)
  show ?thesis unfolding UInt64
    by (rule set_get_basic [where cv = "V_uint64 (word_of_int i)"])
       (simp_all only: read_as_object_repr, simp_all add: v r int_caster_in_range uint_word_of_int_kind)
next
  case Int8
  with assms obtain i where v: "v = HInt i" and r: "- 128 \<le> i" "i \<le> 127"
    by (auto split: hostval.splits)
  show ?thesis unfolding Int8
    by (rule set_get_basic [where cv = "V_int8 (word_of_int i)"])
       (simp_all only: read_as_object_repr, simp_all add: v r int_caster_in_range sint_word_of_int_kind)
next
  case Int16
  with assms obtain i where v: "v = HInt i" and r: "- 32768 \<le> i" "i \<le> 32767"
    by (auto split: hostval.splits)
  show ?thesis unfolding Int16
    by (rule set_get_basic [where cv = "V_int16 (word_of_int i)"])
       (simp_all only: read_as_object_repr, simp_all add: v r int_caster_in_range sint_word_of_int_kind)
next
  case Int32
  with assms obtain i where v: "v = HInt i" and r: "- 2147483648 \<le> i" "i \<le> 2147483647"
    by (auto split: hostval.splits)
  show ?thesis unfolding Int32
    by (rule set_get_basic [where cv = "V_int32 (word_of_int i)"])
       (simp_all only: read_as_object_repr, simp_all add: v r int_caster_in_range sint_word_of_int_kind)
next
  case Int64
  with assms obtain i where v: "v = HInt i"
    and r: "- 9223372036854775808 \<le> i" "i \<le> 9223372036854775807"
    by (auto split: hostval.splits)
  show ?thesis unfolding Int64
    by (rule set_get_basic [where cv = "V_int64 (word_of_int i)"])
       (simp_all only: read_as_object_repr, simp_all add: v r int_caster_in_range sint_word_of_int_kind)
next
  case Float32
  with assms obtain d where v: "v = HFloat d"
    and r: "float_to_double fp (double_to_float fp d) = d"
    by (auto split: hostval.splits)
  show ?thesis unfolding Float32
    by (rule set_get_basic [where cv = "V_float (double_to_float fp d)"])
       (simp_all only: read_as_object_repr, simp_all add: v r double_caster_def)
next
  case Float64
  with assms obtain d where v: "v = HFloat d"
    by (auto split: hostval.splits)
  show ?thesis unfolding Float64
    by (rule set_get_basic [where cv = "V_double d"])
       (simp_all only: read_as_object_repr, simp_all add: v double_caster_def)
qed

theorem basic_set_get_round_trip_witness:
  "value_of_kind \<lparr>double_to_float = ucast, float_to_double = ucast, int_to_double = (\<lambda>i. None)\<rparr>
      Int32 (HInt (- 2147483648))
   \<and> fst (ValueSetter_switch
        \<lparr>double_to_float = ucast, float_to_double = ucast, int_to_double = (\<lambda>i. None)\<rparr>
        (BasicType Int32) 16 (HInt (- 2147483648)) \<lparr>mem = (\<lambda>a. 0), brk = 4096\<rparr>) = Inr ()
   \<and> ValueGetter_switch
        \<lparr>double_to_float = ucast, float_to_double = ucast, int_to_double = (\<lambda>i. None)\<rparr>
        (BasicType Int32) 16
        (mem (snd (ValueSetter_switch
           \<lparr>double_to_float = ucast, float_to_double = ucast, int_to_double = (\<lambda>i. None)\<rparr>
           (BasicType Int32) 16 (HInt (- 2147483648)) \<lparr>mem = (\<lambda>a. 0), brk = 4096\<rparr>)))
      = Inr (HInt (- 2147483648))"
  using basic_set_get_round_trip [of "\<lparr>double_to_float = ucast, float_to_double = ucast, int_to_double = (\<lambda>i. None)\<rparr>"
      Int32 "HInt (- 2147483648)" 16 "\<lparr>mem = (\<lambda>a. 0), brk = 4096\<rparr>"]
  by simp


section \<open>Arguments of a call\<close>

text \<open>
  Claim C1. A call of \<^verbatim>\<open>int add(int, int)\<close> with one argument does not throw \<^verbatim>\<open>TypeError\<close>:
  with assertions it aborts on the \<^verbatim>\<open>assert\<close>, and in a build with \<^verbatim>\<open>NDEBUG\<close> the argument
  is converted, the native function is called and a result handle comes back.
\<close>

theorem call_arity_mismatch_no_TypeError:
  "CFunction_call False fp NF
     (CFunction (FunctionType [(BasicType Int32, False), (BasicType Int32, False)]
                   (Some (BasicType Int32)) 1 1) f)
     [HInt 2] h = (Inl assertion_failure, h)
   \<and> fst (CFunction_call True fp NF
     (CFunction (FunctionType [(BasicType Int32, False), (BasicType Int32, False)]
                   (Some (BasicType Int32)) 1 1) f)
     [HInt 2] h) = Inr (HObj (CBasicObj Int32 (BasicType Int32) (brk h + 4) Owned))"
  by (simp add: CFunction_call_def ConvertArgsSwitch_case_basic_def int_caster_def
      emplace_owned_def alloc_init_def new_owned_def le_bytes_def)

text \<open>
  Claim C2. A handle of the class of the parameter but of another type is accepted as it
  is: \<^verbatim>\<open>checkType\<close> checks nothing, for struct, union, array, pointer and function
  parameters alike.
\<close>

theorem checkType_accepts_other_type:
  "ConvertArgs_switch fp (StructType ''A'' 16 8) (HObj (CStructObj (StructType ''B'' 4 4) a ow)) s
     = (Inr (Some (CStructObj (StructType ''B'' 4 4) a ow)), s)
   \<and> ConvertArgs_switch fp (UnionType ''A'' 16 8) (HObj (CUnionObj (UnionType ''B'' 4 4) a ow)) s
     = (Inr (Some (CUnionObj (UnionType ''B'' 4 4) a ow)), s)
   \<and> ConvertArgs_switch fp (ArrayType (BasicType Int64) 4)
        (HObj (CArrayObj (ArrayType (BasicType Int8) 2) a ow)) s
     = (Inr (Some (CArrayObj (ArrayType (BasicType Int8) 2) a ow)), s)
   \<and> ConvertArgs_switch fp (PointerType (BasicType Int64) False)
        (HObj (CPointerObj (PointerType (BasicType Int8) True) a ow)) s
     = (Inr (Some (CPointerObj (PointerType (BasicType Int8) True) a ow)), s)
   \<and> ConvertArgs_switch fp (FunctionType [(BasicType Int32, False)] None 1 1)
        (HObj (CFunction (FunctionType [] (Some (BasicType Float64)) 1 1) f)) s
     = (Inr (Some (CFunction (FunctionType [] (Some (BasicType Float64)) 1 1) f)), s)"
  by (simp add: ConvertArgsSwitch_case_composite_def ConvertArgsSwitch_case_array_def
      ConvertArgsSwitch_case_pointer_def ConvertArgsSwitch_case_func_def checkType_def)


section \<open>Casts of handles\<close>

lemma load_ptr_store_ptr: "load_ptr (store_bytes m a (le_bytes 8 v)) a = v"
  by (simp only: load_ptr_def read_back8)

lemma load_bytes_8:
  "load_bytes m a 8 =
     [m a, m (a + 1), m (a + 2), m (a + 3), m (a + 4), m (a + 5), m (a + 6), m (a + 7)]"
  by (simp add: eval_nat_numeral add.assoc)

text \<open>
  Claim C6, as stated, fails: \<^verbatim>\<open>double\<close> is a basic type of eight bytes that is not an integer
  type, and casting a pointer handle to it returns a handle.
\<close>

theorem pointer_cast_to_double_returns_handle:
  "fst (CPointerObj_cast (CPointerObj (PointerType (BasicType Char_k) False) 16 View)
          (BasicType Float64) \<lparr>mem = (\<lambda>a. 0), brk = 4096\<rparr>)
     = Some (CBasicObj UInt64 (BasicType Float64) 4096 Owned)"
  by (simp add: CPointerObj_cast_def sizeof_uintptr_t_def alloc_init_def)

text \<open>
  Claim C6, amended. Casting a pointer handle to a basic type, integer or floating point,
  returns a handle exactly when the size of the type is the address width; the handle is an
  owned \<^verbatim>\<open>CBasicObj<uintptr_t>\<close> whose storage holds the address value of the pointer. A basic
  type of another size gives no handle, and so does an enum, array, struct, union or
  function type; no case throws.
\<close>

theorem pointer_cast_to_basic:
  "(fst (CPointerObj_cast self (BasicType k) h) \<noteq> None \<longleftrightarrow> sizeof_basic k = sizeof_uintptr_t)
   \<and> (sizeof_basic k = sizeof_uintptr_t \<longrightarrow>
        fst (CPointerObj_cast self (BasicType k) h)
          = Some (CBasicObj UInt64 (BasicType k) (brk h) Owned)
        \<and> load_ptr (mem (snd (CPointerObj_cast self (BasicType k) h))) (brk h)
          = getPtr (mem h) self)
   \<and> (sizeof_basic k \<noteq> sizeof_uintptr_t \<longrightarrow>
        CPointerObj_cast self (BasicType k) h = (None, h))
   \<and> CPointerObj_cast self EnumType h = (None, h)
   \<and> CPointerObj_cast self (ArrayType el n) h = (None, h)
   \<and> CPointerObj_cast self (StructType nm sz al) h = (None, h)
   \<and> CPointerObj_cast self (UnionType nm sz al) h = (None, h)
   \<and> CPointerObj_cast self (FunctionType ps r sz al) h = (None, h)"
  by (simp add: CPointerObj_cast_def alloc_init_def load_ptr_store_ptr)

theorem pointer_cast_to_basic_witness:
  "(fst (CPointerObj_cast (CPointerObj (PointerType (BasicType Char_k) False) 16 View)
          (BasicType UInt64) \<lparr>mem = (\<lambda>a. 0)(16 := 42), brk = 4096\<rparr>) \<noteq> None)
   \<and> sizeof_basic UInt64 = sizeof_uintptr_t
   \<and> fst (CPointerObj_cast (CPointerObj (PointerType (BasicType Char_k) False) 16 View)
          (BasicType UInt64) \<lparr>mem = (\<lambda>a. 0)(16 := 42), brk = 4096\<rparr>)
        = Some (CBasicObj UInt64 (BasicType UInt64) 4096 Owned)
   \<and> load_ptr (mem (snd (CPointerObj_cast
          (CPointerObj (PointerType (BasicType Char_k) False) 16 View)
          (BasicType UInt64) \<lparr>mem = (\<lambda>a. 0)(16 := 42), brk = 4096\<rparr>))) 4096 = 42
   \<and> sizeof_basic Int32 \<noteq> sizeof_uintptr_t
   \<and> CPointerObj_cast (CPointerObj (PointerType (BasicType Char_k) False) 16 View)
          (BasicType Int32) \<lparr>mem = (\<lambda>a. 0)(16 := 42), brk = 4096\<rparr>
        = (None, \<lparr>mem = (\<lambda>a. 0)(16 := 42), brk = 4096\<rparr>)"
  using pointer_cast_to_basic [of "CPointerObj (PointerType (BasicType Char_k) False) 16 View" UInt64
              "\<lparr>mem = (\<lambda>a. 0)(16 := 42), brk = 4096\<rparr>"]
        pointer_cast_to_basic [of "CPointerObj (PointerType (BasicType Char_k) False) 16 View" Int32
              "\<lparr>mem = (\<lambda>a. 0)(16 := 42), brk = 4096\<rparr>"]
  by (simp add: sizeof_uintptr_t_def getPtr_def load_ptr_def load_bytes_8)

text \<open>
  Claim C7. An array handle cast to an array type, and a struct or union handle cast to a
  struct or union type, gives a view at the same address when the target size equals the
  source size and the address is a multiple of the target alignment, and no handle
  otherwise; the heap is unchanged. The alignment of a type is positive.
\<close>

theorem cast_size_alignment_rule:
  assumes "0 < getAlign To"
  shows "(To = ArrayType el n \<longrightarrow>
            CArrayObj_cast self To h =
              (if getSize To = getSize (getType self) \<and> unat (dataPtr self) mod getAlign To = 0
               then (Inr (Some (CArrayObj To (dataPtr self) View)), h)
               else (Inr None, h)))
       \<and> (To = StructType nm sz al \<longrightarrow>
            CCompositeObj_cast self To h =
              (if getSize To = getSize (getType self) \<and> unat (dataPtr self) mod getAlign To = 0
               then (Inr (Some (CStructObj To (dataPtr self) View)), h)
               else (Inr None, h)))
       \<and> (To = UnionType nm sz al \<longrightarrow>
            CCompositeObj_cast self To h =
              (if getSize To = getSize (getType self) \<and> unat (dataPtr self) mod getAlign To = 0
               then (Inr (Some (CUnionObj To (dataPtr self) View)), h)
               else (Inr None, h)))"
  using assms by (auto simp add: CArrayObj_cast_def CCompositeObj_cast_def isa_CompositeType_def)

theorem cast_size_alignment_rule_witness:
  "0 < getAlign (ArrayType (BasicType Int32) 2)
   \<and> CArrayObj_cast (CArrayObj (ArrayType (BasicType Int8) 8) 16 Owned)
        (ArrayType (BasicType Int32) 2) \<lparr>mem = (\<lambda>a. 0), brk = 4096\<rparr>
       = (Inr (Some (CArrayObj (ArrayType (BasicType Int32) 2) 16 View)),
          \<lparr>mem = (\<lambda>a. 0), brk = 4096\<rparr>)
   \<and> CArrayObj_cast (CArrayObj (ArrayType (BasicType Int8) 8) 18 Owned)
        (ArrayType (BasicType Int32) 2) \<lparr>mem = (\<lambda>a. 0), brk = 4096\<rparr>
       = (Inr None, \<lparr>mem = (\<lambda>a. 0), brk = 4096\<rparr>)
   \<and> 0 < getAlign (StructType ''Point'' 8 4)
   \<and> CCompositeObj_cast (CUnionObj (UnionType ''U'' 8 8) 16 View)
        (StructType ''Point'' 8 4) \<lparr>mem = (\<lambda>a. 0), brk = 4096\<rparr>
       = (Inr (Some (CStructObj (StructType ''Point'' 8 4) 16 View)),
          \<lparr>mem = (\<lambda>a. 0), brk = 4096\<rparr>)
   \<and> CCompositeObj_cast (CUnionObj (UnionType ''U'' 12 4) 16 View)
        (StructType ''Point'' 8 4) \<lparr>mem = (\<lambda>a. 0), brk = 4096\<rparr>
       = (Inr None, \<lparr>mem = (\<lambda>a. 0), brk = 4096\<rparr>)"
  using cast_size_alignment_rule [of "ArrayType (BasicType Int32) 2" "BasicType Int32" 2
              "CArrayObj (ArrayType (BasicType Int8) 8) 16 Owned"
              "\<lparr>mem = (\<lambda>a. 0), brk = 4096\<rparr>"]
        cast_size_alignment_rule [of "ArrayType (BasicType Int32) 2" "BasicType Int32" 2
              "CArrayObj (ArrayType (BasicType Int8) 8) 18 Owned"
              "\<lparr>mem = (\<lambda>a. 0), brk = 4096\<rparr>"]
        cast_size_alignment_rule [of "StructType ''Point'' 8 4" _ _ "CUnionObj (UnionType ''U'' 8 8) 16 View"
              "\<lparr>mem = (\<lambda>a. 0), brk = 4096\<rparr>" "''Point''" 8 4]
        cast_size_alignment_rule [of "StructType ''Point'' 8 4" _ _ "CUnionObj (UnionType ''U'' 12 4) 16 View"
              "\<lparr>mem = (\<lambda>a. 0), brk = 4096\<rparr>" "''Point''" 8 4]
  by simp


section \<open>Pointer arguments\<close>

lemma load_bytes_numeral:
  "load_bytes m a (numeral k) = m a # load_bytes m (a + 1) (pred_numeral k)"
  by (simp add: numeral_eq_Suc)





lemma py_holders_emplace_owned: "py_holders (snd (emplace_owned bs s)) = py_holders s"
  by (simp add: emplace_owned_def alloc_init_def)






lemma of_nat_64_inj:
  "x < 2 ^ 64 \<Longrightarrow> y < 2 ^ 64 \<Longrightarrow> (of_nat x :: 64 word) = of_nat y \<Longrightarrow> x = y"
  by (simp add: word_of_nat_eq_iff take_bit_nat_eq_self)

lemma length_load_bytes: "length (load_bytes m a n) = n"
  by (induction n arbitrary: a) simp_all

lemma nth_load_bytes: "i < n \<Longrightarrow> load_bytes m a n ! i = m (a + of_nat i)"
proof (induction n arbitrary: a i)
  case 0
  then show ?case by simp
next
  case (Suc n)
  show ?case
  proof (cases i)
    case 0
    then show ?thesis by simp
  next
    case (Suc j)
    with Suc.prems have "j < n" by simp
    then have "load_bytes m (a + 1) n ! j = m ((a + 1) + of_nat j)" by (rule Suc.IH)
    then show ?thesis using Suc by (simp add: add.assoc)
  qed
qed

lemma store_bytes_at:
  "i < length bs \<Longrightarrow> length bs \<le> 2 ^ 64 \<Longrightarrow> store_bytes m a bs (a + of_nat i) = bs ! i"
proof (induction bs arbitrary: m a i)
  case Nil
  then show ?case by simp
next
  case (Cons b bs)
  show ?case
  proof (cases i)
    case 0
    have "\<forall>k < length bs. (a + 1) + of_nat k \<noteq> a"
    proof (intro allI impI)
      fix k assume "k < length bs"
      with Cons.prems have "k < 2 ^ 64 - 1" by simp
      then have "(1 + of_nat k :: 64 word) \<noteq> 0" by (rule of_nat_Suc_neq_0)
      then show "(a + 1) + of_nat k \<noteq> a" by (simp add: add.assoc)
    qed
    then have "store_bytes (m(a := b)) (a + 1) bs a = b"
      by (simp add: store_bytes_other)
    with 0 show ?thesis by simp
  next
    case (Suc j)
    with Cons.prems have "j < length bs" "length bs \<le> 2 ^ 64" by simp_all
    then have "store_bytes (m(a := b)) (a + 1) bs ((a + 1) + of_nat j) = bs ! j"
      by (rule Cons.IH)
    then show ?thesis using Suc by (simp add: add.assoc)
  qed
qed

lemma load_after_two_stores:
  assumes "length xs + length ys < 2 ^ 64"
  shows "load_bytes (store_bytes (store_bytes m a xs) (a + of_nat (length xs)) ys) a (length xs)
           = xs"
proof (rule nth_equalityI)
  show "length (load_bytes (store_bytes (store_bytes m a xs) (a + of_nat (length xs)) ys) a
      (length xs)) = length xs"
    by (simp add: length_load_bytes)
next
  fix i
  assume "i < length (load_bytes (store_bytes (store_bytes m a xs) (a + of_nat (length xs)) ys) a
      (length xs))"
  then have i: "i < length xs" by (simp add: length_load_bytes)
  have "\<forall>k < length ys. (a + of_nat (length xs)) + of_nat k \<noteq> a + of_nat i"
  proof (intro allI impI notI)
    fix k assume k: "k < length ys"
      and eq: "(a + of_nat (length xs)) + of_nat k = a + of_nat i"
    then have "(of_nat (length xs + k) :: 64 word) = of_nat i" by (simp add: add.assoc)
    moreover have "length xs + k < 2 ^ 64" "i < 2 ^ 64" using assms k i by simp_all
    ultimately have "length xs + k = i" by (intro of_nat_64_inj)
    with i show False by simp
  qed
  then have "store_bytes (store_bytes m a xs) (a + of_nat (length xs)) ys (a + of_nat i)
      = store_bytes m a xs (a + of_nat i)"
    by (rule store_bytes_other)
  also have "\<dots> = xs ! i" using i assms by (intro store_bytes_at) simp_all
  finally show "load_bytes (store_bytes (store_bytes m a xs) (a + of_nat (length xs)) ys) a
      (length xs) ! i = xs ! i"
    using i by (simp add: nth_load_bytes)
qed

lemma case_pointer_string_HStr:
  assumes "utf8_encode cs = Some bs" and "brk (hp s) \<noteq> 0"
  shows "case_pointer_string Ty (HStr cs) s =
     (Inr (Some (CPointerObj Ty (brk (hp s) + of_nat (length (bs @ [0]))) Owned)),
      \<lparr>hp = \<lparr>mem = store_bytes (store_bytes (mem (hp s)) (brk (hp s)) (bs @ [0]))
                     (brk (hp s) + of_nat (length (bs @ [0]))) (le_bytes 8 (brk (hp s))),
              brk = brk (hp s) + of_nat (length (bs @ [0])) + 8\<rparr>,
       holders = holders s @ [CPointerObj Ty (brk (hp s) + of_nat (length (bs @ [0]))) Owned],
       py_holders = py_holders s @ [HBytes (brk (hp s)) (length bs)]\<rparr>)"
  using assms
  by (simp add: case_pointer_string_def PyUnicode_AsUTF8String_def emplace_owned_def
      alloc_init_def BYTES_AS_STRING_def length_le_bytes)

text \<open>
  Claim C10. For a \<^verbatim>\<open>const char*\<close> parameter a bytes object is taken as it is: the new
  pointer handle holds the address of the object's own buffer, nothing is encoded or kept
  alive, and the only memory written is the storage of the handle. A text string is
  encoded to UTF-8 into a new bytes object, which is kept alive for the call and whose
  buffer the pointer handle holds.
\<close>

theorem bytes_direct_text_encoded:
  "(b \<noteq> 0 \<longrightarrow>
      ConvertArgsSwitch_case_pointer (PointerType (BasicType Char_k) True) (HBytes b n) s =
        (Inr (Some (CPointerObj (PointerType (BasicType Char_k) True) (brk (hp s)) Owned)),
         s\<lparr>hp := \<lparr>mem = store_ptr (mem (hp s)) (brk (hp s)) b, brk = brk (hp s) + 8\<rparr>,
           holders := holders s
              @ [CPointerObj (PointerType (BasicType Char_k) True) (brk (hp s)) Owned]\<rparr>)
      \<and> getPtr (store_ptr (mem (hp s)) (brk (hp s)) b)
           (CPointerObj (PointerType (BasicType Char_k) True) (brk (hp s)) Owned) = b)
   \<and> (utf8_encode cs = Some bs \<and> brk (hp s) \<noteq> 0 \<and> length bs + 9 < 2 ^ 64 \<longrightarrow>
      fst (ConvertArgsSwitch_case_pointer (PointerType (BasicType Char_k) True) (HStr cs) s) =
        Inr (Some (CPointerObj (PointerType (BasicType Char_k) True)
                     (brk (hp s) + of_nat (length bs + 1)) Owned))
      \<and> py_holders
          (snd (ConvertArgsSwitch_case_pointer (PointerType (BasicType Char_k) True) (HStr cs) s))
          = py_holders s @ [HBytes (brk (hp s)) (length bs)]
      \<and> load_bytes
          (mem (hp (snd (ConvertArgsSwitch_case_pointer (PointerType (BasicType Char_k) True)
                           (HStr cs) s))))
          (brk (hp s)) (length bs + 1) = bs @ [0]
      \<and> getPtr
          (mem (hp (snd (ConvertArgsSwitch_case_pointer (PointerType (BasicType Char_k) True)
                           (HStr cs) s))))
          (CPointerObj (PointerType (BasicType Char_k) True)
             (brk (hp s) + of_nat (length bs + 1)) Owned) = brk (hp s))"
proof (intro conjI impI)
  assume "b \<noteq> 0"
  then show "ConvertArgsSwitch_case_pointer (PointerType (BasicType Char_k) True) (HBytes b n) s =
        (Inr (Some (CPointerObj (PointerType (BasicType Char_k) True) (brk (hp s)) Owned)),
         s\<lparr>hp := \<lparr>mem = store_ptr (mem (hp s)) (brk (hp s)) b, brk = brk (hp s) + 8\<rparr>,
           holders := holders s
              @ [CPointerObj (PointerType (BasicType Char_k) True) (brk (hp s)) Owned]\<rparr>)"
    by (simp add: ConvertArgsSwitch_case_pointer_def case_pointer_string_def
        BYTES_AS_STRING_def emplace_owned_def alloc_init_def store_ptr_def length_le_bytes)
next
  show "getPtr (store_ptr (mem (hp s)) (brk (hp s)) b)
           (CPointerObj (PointerType (BasicType Char_k) True) (brk (hp s)) Owned) = b"
    by (simp add: getPtr_def store_ptr_def load_ptr_store_ptr)
next
  assume a: "utf8_encode cs = Some bs \<and> brk (hp s) \<noteq> 0 \<and> length bs + 9 < 2 ^ 64"
  let ?T = "PointerType (BasicType Char_k) True"
  have eq: "ConvertArgsSwitch_case_pointer ?T (HStr cs) s = case_pointer_string ?T (HStr cs) s"
    by (simp add: ConvertArgsSwitch_case_pointer_def)
  from a have a1: "utf8_encode cs = Some bs" and a2: "brk (hp s) \<noteq> 0" by simp_all
  note r = case_pointer_string_HStr [OF a1 a2, of ?T]
  from a have len: "length (bs @ [0]) + length (le_bytes 8 (brk (hp s))) < 2 ^ 64"
    by (simp add: length_le_bytes)
  show "fst (ConvertArgsSwitch_case_pointer ?T (HStr cs) s) =
        Inr (Some (CPointerObj ?T (brk (hp s) + of_nat (length bs + 1)) Owned))"
    using a by (simp add: eq r)
  show "py_holders (snd (ConvertArgsSwitch_case_pointer ?T (HStr cs) s))
          = py_holders s @ [HBytes (brk (hp s)) (length bs)]"
    using a by (simp add: eq r)
  have "load_bytes (mem (hp (snd (ConvertArgsSwitch_case_pointer ?T (HStr cs) s))))
          (brk (hp s)) (length (bs @ [0])) = bs @ [0]"
    using a load_after_two_stores [OF len, of "mem (hp s)" "brk (hp s)"]
    by (simp add: eq r)
  then show "load_bytes (mem (hp (snd (ConvertArgsSwitch_case_pointer ?T (HStr cs) s))))
          (brk (hp s)) (length bs + 1) = bs @ [0]"
    by simp
  have "getPtr (mem (hp (snd (ConvertArgsSwitch_case_pointer ?T (HStr cs) s))))
          (CPointerObj ?T (brk (hp s) + of_nat (length (bs @ [0]))) Owned) = brk (hp s)"
    by (simp only: eq r getPtr_def dataPtr.simps snd_conv call_state.simps heap.simps
        load_ptr_store_ptr)
  then show "getPtr (mem (hp (snd (ConvertArgsSwitch_case_pointer ?T (HStr cs) s))))
          (CPointerObj ?T (brk (hp s) + of_nat (length bs + 1)) Owned) = brk (hp s)"
    by simp
qed

theorem bytes_direct_text_encoded_witness:
  "utf8_encode [104, 233] = Some [104, 195, 169]
   \<and> fst (ConvertArgsSwitch_case_pointer (PointerType (BasicType Char_k) True) (HStr [104, 233])
        \<lparr>hp = \<lparr>mem = (\<lambda>a. 0), brk = 4096\<rparr>, holders = [], py_holders = []\<rparr>)
     = Inr (Some (CPointerObj (PointerType (BasicType Char_k) True) 4100 Owned))
   \<and> py_holders (snd (ConvertArgsSwitch_case_pointer (PointerType (BasicType Char_k) True)
        (HStr [104, 233])
        \<lparr>hp = \<lparr>mem = (\<lambda>a. 0), brk = 4096\<rparr>, holders = [], py_holders = []\<rparr>))
     = [HBytes 4096 3]
   \<and> load_bytes (mem (hp (snd (ConvertArgsSwitch_case_pointer
        (PointerType (BasicType Char_k) True) (HStr [104, 233])
        \<lparr>hp = \<lparr>mem = (\<lambda>a. 0), brk = 4096\<rparr>, holders = [], py_holders = []\<rparr>)))) 4096 4
     = [104, 195, 169, 0]
   \<and> fst (ConvertArgsSwitch_case_pointer (PointerType (BasicType Char_k) True) (HBytes 64 2)
        \<lparr>hp = \<lparr>mem = (\<lambda>a. 0), brk = 4096\<rparr>, holders = [], py_holders = []\<rparr>)
     = Inr (Some (CPointerObj (PointerType (BasicType Char_k) True) 4096 Owned))
   \<and> py_holders (snd (ConvertArgsSwitch_case_pointer (PointerType (BasicType Char_k) True)
        (HBytes 64 2)
        \<lparr>hp = \<lparr>mem = (\<lambda>a. 0), brk = 4096\<rparr>, holders = [], py_holders = []\<rparr>))
     = []"
proof -
  have e: "utf8_encode [104, 233] = Some [104, 195, 169]"
    by (simp add: utf8_char_def)
  show ?thesis
    using e bytes_direct_text_encoded [of 64 2
        "\<lparr>hp = \<lparr>mem = (\<lambda>a. 0), brk = 4096\<rparr>, holders = [], py_holders = []\<rparr>"
        "[104, 233]" "[104, 195, 169]"]
    by (simp add: load_bytes_numeral)
qed


section \<open>Null-terminated views\<close>

lemma strlen_from_first_null:
  assumes "m (p + of_nat n) = 0" and "\<forall>j < n. m (p + of_nat j) \<noteq> 0" and "k \<le> n"
  shows "strlen_from m p k = Some n"
  using assms(3)
proof (induction "n - k" arbitrary: k)
  case 0
  then have "k = n" by simp
  then show ?case using assms(1) by (subst strlen_from.simps) simp
next
  case (Suc d)
  then have "k < n" by simp
  then have "m (p + of_nat k) \<noteq> 0" using assms(2) by simp
  moreover have "strlen_from m p (k + 1) = Some n"
    using Suc by (intro Suc.hyps(1)) simp_all
  ultimately show ?case by (subst strlen_from.simps) simp
qed

lemma to_ssize_t_small: "n < 2 ^ 63 \<Longrightarrow> to_ssize_t n = int n"
proof -
  assume n: "n < 2 ^ 63"
  have "sint (word_of_int (int n) :: 64 word) = int n"
    using n by (intro sint_of_int_range) simp_all
  then show ?thesis by (simp add: to_ssize_t_def)
qed

text \<open>
  Claim C9. \<^verbatim>\<open>getMemoryViewCStr\<close> throws \<^verbatim>\<open>TypeError\<close> when the pointee is not the basic kind
  \<^verbatim>\<open>char\<close>. When it is, and the first zero byte lies \<open>n\<close> bytes after the stored pointer
  value (\<open>n\<close> below \<open>2 ^ 63\<close>, the range of \<^verbatim>\<open>ssize_t\<close>), the call returns, and the view
  starts at the stored pointer value and has \<open>n\<close> elements.
\<close>

theorem getMemoryViewCStr_view:
  "(pte \<noteq> BasicType Char_k \<longrightarrow>
      getMemoryViewCStr m (CPointerObj (PointerType pte c) a ow)
        = Some (Inl (TypeError ''pointer must be a pointer to char*!'')))
   \<and> (m (getPtr m (CPointerObj (PointerType (BasicType Char_k) c) a ow) + of_nat n) = 0
       \<and> (\<forall>j < n. m (getPtr m (CPointerObj (PointerType (BasicType Char_k) c) a ow) + of_nat j)
             \<noteq> 0)
       \<and> n < 2 ^ 63 \<longrightarrow>
      getMemoryViewCStr m (CPointerObj (PointerType (BasicType Char_k) c) a ow)
        = Some (Inr \<lparr>ptr = getPtr m (CPointerObj (PointerType (BasicType Char_k) c) a ow),
                     itemsize = 1, format = ''b'', ndim = 1, shape = [int n],
                     strides = [1]\<rparr>))"
proof (intro conjI impI)
  assume "pte \<noteq> BasicType Char_k"
  then show "getMemoryViewCStr m (CPointerObj (PointerType pte c) a ow)
        = Some (Inl (TypeError ''pointer must be a pointer to char*!''))"
    by (cases pte) (simp_all add: getMemoryViewCStr_def CharKind_def)
next
  let ?self = "CPointerObj (PointerType (BasicType Char_k) c) a ow"
  assume h: "m (getPtr m ?self + of_nat n) = 0
       \<and> (\<forall>j < n. m (getPtr m ?self + of_nat j) \<noteq> 0)
       \<and> n < 2 ^ 63"
  then have "strlen_from m (getPtr m ?self) 0 = Some n"
    by (intro strlen_from_first_null) simp_all
  then have "strlen m (getPtr m ?self) = Some n"
    by (simp add: strlen_def)
  moreover have "to_ssize_t n = int n" "to_ssize_t 1 = 1"
    using h by (simp_all add: to_ssize_t_small)
  ultimately show "getMemoryViewCStr m ?self
        = Some (Inr \<lparr>ptr = getPtr m ?self, itemsize = 1, format = ''b'', ndim = 1,
                     shape = [int n], strides = [1]\<rparr>)"
    by (simp add: getMemoryViewCStr_def CharKind_def getMemoryView_def)
qed

theorem getMemoryViewCStr_view_witness:
  "getMemoryViewCStr ((\<lambda>a. 0)(16 := 32, 32 := 104, 33 := 105))
      (CPointerObj (PointerType (BasicType Int32) True) 16 View)
     = Some (Inl (TypeError ''pointer must be a pointer to char*!''))
   \<and> getPtr ((\<lambda>a. 0)(16 := 32, 32 := 104, 33 := 105))
        (CPointerObj (PointerType (BasicType Char_k) True) 16 View) = 32
   \<and> getMemoryViewCStr ((\<lambda>a. 0)(16 := 32, 32 := 104, 33 := 105))
      (CPointerObj (PointerType (BasicType Char_k) True) 16 View)
     = Some (Inr \<lparr>ptr = 32, itemsize = 1, format = ''b'', ndim = 1,
                  shape = [2], strides = [1]\<rparr>)"
proof -
  let ?m = "(\<lambda>a. 0)(16 := 32, 32 := 104, 33 := 105) :: addr \<Rightarrow> byte"
  let ?self = "CPointerObj (PointerType (BasicType Char_k) True) 16 View"
  have p: "getPtr ?m ?self = 32"
    by (simp add: getPtr_def load_ptr_def load_bytes_8)
  have z: "?m (getPtr ?m ?self + of_nat 2) = 0"
    by (simp add: p)
  have nz: "\<forall>j < 2. ?m (getPtr ?m ?self + of_nat j) \<noteq> 0"
  proof (intro allI impI)
    fix j :: nat assume "j < 2"
    then have "j = 0 \<or> j = 1" by auto
    then show "?m (getPtr ?m ?self + of_nat j) \<noteq> 0" by (auto simp: p)
  qed
  show ?thesis
    using p z nz
      getMemoryViewCStr_view [where pte = "BasicType Int32" and m = ?m and c = True and a = 16 and ow = View
            and n = 2]
    by simp
qed

end
